theory Spec2Isabelle
  imports Complex_Main
begin

section \<open>Numeric conventions\<close>

text \<open>
  The analytics code computes with Python floats and numpy arrays. The embedding reads
  every float as a real number and every numpy reduction by its mathematical definition:
  \<open>np.mean\<close> is the arithmetic mean, \<open>np.std\<close> the population standard
  deviation (\<open>ddof = 0\<close>), \<open>np.polyfit(x, y, 1)\<close> the least-squares line.
  Python's \<open>round(v, n)\<close> rounds to \<open>n\<close> decimals, ties to the even neighbour.
\<close>

definition round_half_even :: "real \<Rightarrow> int" where
  "round_half_even y =
     (let f = \<lfloor>y\<rfloor>; d = y - of_int f
      in if d < 1 / 2 then f
         else if d > 1 / 2 then f + 1
         else if even f then f else f + 1)"

definition py_round :: "real \<Rightarrow> nat \<Rightarrow> real" where
  "py_round v n = of_int (round_half_even (v * 10 ^ n)) / 10 ^ n"

text \<open>
  Where the result of a float operation decides a reported value, the operation is
  modelled with its rounding: \<open>float64 x\<close> is the double nearest to \<open>x\<close>, ties to
  the even significand (53 bits; the normal range, to which minute counts and their
  quotients belong). Division and multiplication of doubles are the exact operation
  followed by \<open>float64\<close>.
\<close>

definition float64 :: "real \<Rightarrow> real" where
  "float64 x =
     (if x = 0 then 0
      else (let e = \<lfloor>log 2 \<bar>x\<bar>\<rfloor>
            in of_int (round_half_even (x * 2 powi (52 - e))) * 2 powi (e - 52)))"

definition np_mean :: "real list \<Rightarrow> real" where
  "np_mean xs = sum_list xs / real (length xs)"

definition np_std :: "real list \<Rightarrow> real" where
  "np_std xs = sqrt (np_mean (map (\<lambda>x. (x - np_mean xs)\<^sup>2) xs))"

text \<open>Python truthiness of an optional number: \<open>None\<close> and zero are both false.\<close>

fun truthy :: "'a::zero option \<Rightarrow> bool" where
  "truthy None = False"
| "truthy (Some v) = (v \<noteq> 0)"

section \<open>Daily health score (\<open>health_analyzer.py\<close>)\<close>

text \<open>The fields of \<open>DailySummary\<close> read by the score; nullable columns are options.\<close>

record daily_summary =
  total_steps :: "int option"
  sleep_duration_minutes :: "int option"
  sleep_score :: "real option"
  resting_heart_rate :: "int option"
  recovery_score :: "real option"

definition activity_score :: "daily_summary \<Rightarrow> real" where
  "activity_score ds =
     (let steps = (if truthy (total_steps ds) then the (total_steps ds) else 0);
          step_goal = 10000
      in min 100 ((real_of_int steps / step_goal) * 100))"

definition sleep_subscore :: "daily_summary \<Rightarrow> real" where
  "sleep_subscore ds =
     (if truthy (sleep_score ds) then the (sleep_score ds)
      else if truthy (sleep_duration_minutes ds) then
        (let sleep_hours = real_of_int (the (sleep_duration_minutes ds)) / 60
         in if 7 \<le> sleep_hours \<and> sleep_hours \<le> 9 then 90
            else if (6 \<le> sleep_hours \<and> sleep_hours < 7) \<or> (9 < sleep_hours \<and> sleep_hours \<le> 10) then 70
            else if (5 \<le> sleep_hours \<and> sleep_hours < 6) \<or> (10 < sleep_hours \<and> sleep_hours \<le> 11) then 50
            else 30)
      else 50)"

definition heart_score :: "daily_summary \<Rightarrow> real" where
  "heart_score ds =
     (if truthy (resting_heart_rate ds) then
        (let resting_hr = the (resting_heart_rate ds)
         in if resting_hr < 60 then 90
            else if resting_hr < 70 then 80
            else if resting_hr < 80 then 70
            else 50)
      else 70)"

definition recovery_subscore :: "daily_summary \<Rightarrow> real" where
  "recovery_subscore ds =
     (if truthy (recovery_score ds) then the (recovery_score ds) else 75)"

definition calculate_daily_health_score :: "daily_summary \<Rightarrow> real" where
  "calculate_daily_health_score ds =
     (let total_score = activity_score ds * 0.35 + sleep_subscore ds * 0.35
                        + heart_score ds * 0.20 + recovery_subscore ds * 0.10
      in py_round total_score 1)"

text \<open>A day with no steps, no heart data, and a device-supplied sleep score of 1000.\<close>

definition extreme_day :: daily_summary where
  "extreme_day = \<lparr>total_steps = Some 0, sleep_duration_minutes = None,
     sleep_score = Some 1000, resting_heart_rate = None, recovery_score = None\<rparr>"

definition typical_day :: daily_summary where
  "typical_day = \<lparr>total_steps = Some 8000, sleep_duration_minutes = Some 450,
     sleep_score = Some 82, resting_heart_rate = Some 62, recovery_score = Some 90\<rparr>"

section \<open>Sleep sessions (\<open>models.py\<close>, \<open>sleep_processor.py\<close>)\<close>

text \<open>
  The fields of \<open>SleepSession\<close> the scorer and \<open>save\<close> read. Timestamps are seconds.
  \<open>duration_minutes\<close>, \<open>start_time\<close> and \<open>end_time\<close> are \<open>None\<close> on an instance
  that was built without them; comparing \<open>None\<close> with a number raises \<open>TypeError\<close>.
  \<open>NegativeIndexing\<close> is the error a Django \<open>QuerySet\<close> raises for a negative index.
\<close>

datatype py_error = TypeError | NegativeIndexing

record sleep_session =
  start_time :: "real option"
  end_time :: "real option"
  duration_minutes :: "int option"
  awake_minutes :: int
  light_minutes :: int
  deep_minutes :: int
  rem_minutes :: int
  interruptions :: int
  sleep_efficiency :: "real option"
  quality_score :: "real option"
  quality_category :: string


definition total_sleep_minutes :: "sleep_session \<Rightarrow> int" where
  "total_sleep_minutes s = light_minutes s + deep_minutes s + rem_minutes s"

definition deep_sleep_percentage :: "sleep_session \<Rightarrow> real" where
  "deep_sleep_percentage s =
     (let total = total_sleep_minutes s
      in if total > 0 then real_of_int (deep_minutes s) / real_of_int total * 100 else 0)"

definition rem_sleep_percentage :: "sleep_session \<Rightarrow> real" where
  "rem_sleep_percentage s =
     (let total = total_sleep_minutes s
      in if total > 0 then real_of_int (rem_minutes s) / real_of_int total * 100 else 0)"

text \<open>
  \<open>sleep_session.sleep_efficiency or (total_sleep_minutes / duration_minutes * 100
  if duration_minutes > 0 else 0)\<close>, shared by the scorer and the efficiency analysis.
\<close>

definition derived_efficiency :: "sleep_session \<Rightarrow> py_error + real" where
  "derived_efficiency s =
     (if truthy (sleep_efficiency s) then Inr (the (sleep_efficiency s))
      else case duration_minutes s of
             None \<Rightarrow> Inl TypeError
           | Some d \<Rightarrow>
               Inr (if d > 0
                    then float64 (float64 (real_of_int (total_sleep_minutes s) / real_of_int d) * 100)
                    else 0))"

text \<open>The five piecewise factor tables of \<open>_calculate_sleep_score\<close>.\<close>

definition duration_factor :: "real \<Rightarrow> real" where
  "duration_factor sleep_hours =
     (if 7 \<le> sleep_hours \<and> sleep_hours \<le> 9 then 100
      else if (6 \<le> sleep_hours \<and> sleep_hours < 7) \<or> (9 < sleep_hours \<and> sleep_hours \<le> 10) then 70
      else if (5 \<le> sleep_hours \<and> sleep_hours < 6) \<or> (10 < sleep_hours \<and> sleep_hours \<le> 11) then 40
      else 20)"

definition efficiency_factor :: "real \<Rightarrow> real" where
  "efficiency_factor efficiency =
     (if efficiency \<ge> 90 then 100
      else if efficiency \<ge> 85 then 85
      else if efficiency \<ge> 75 then 60
      else 30)"

definition deep_sleep_factor :: "real \<Rightarrow> real" where
  "deep_sleep_factor p =
     (if 15 \<le> p \<and> p \<le> 25 then 100
      else if (10 \<le> p \<and> p < 15) \<or> (25 < p \<and> p \<le> 30) then 70
      else if (5 \<le> p \<and> p < 10) \<or> (30 < p \<and> p \<le> 35) then 40
      else 20)"

definition rem_sleep_factor :: "real \<Rightarrow> real" where
  "rem_sleep_factor p =
     (if 20 \<le> p \<and> p \<le> 25 then 100
      else if (15 \<le> p \<and> p < 20) \<or> (25 < p \<and> p \<le> 30) then 70
      else if (10 \<le> p \<and> p < 15) \<or> (30 < p \<and> p \<le> 35) then 40
      else 20)"

definition interruption_factor :: "int \<Rightarrow> real" where
  "interruption_factor n =
     (if n \<le> 2 then 100
      else if n \<le> 5 then 70
      else if n \<le> 10 then 40
      else 10)"

text \<open>The weighted sum before rounding, in the order of the \<open>weights\<close> dictionary.\<close>

definition weighted_sleep_total :: "sleep_session \<Rightarrow> int \<Rightarrow> real \<Rightarrow> real" where
  "weighted_sleep_total s d efficiency =
     duration_factor (real_of_int d / 60) * 0.30
     + efficiency_factor efficiency * 0.25
     + deep_sleep_factor (deep_sleep_percentage s) * 0.20
     + rem_sleep_factor (rem_sleep_percentage s) * 0.15
     + interruption_factor (interruptions s) * 0.10"

definition calculate_sleep_score :: "sleep_session \<Rightarrow> py_error + real" where
  "calculate_sleep_score s =
     (case duration_minutes s of
        None \<Rightarrow> Inl TypeError
      | Some d \<Rightarrow>
          (case derived_efficiency s of
             Inl e \<Rightarrow> Inl e
           | Inr efficiency \<Rightarrow> Inr (py_round (weighted_sleep_total s d efficiency) 1)))"







text \<open>The scenario session of the specification: 420 minutes, efficiency 95 supplied.\<close>

definition scenario_session :: sleep_session where
  "scenario_session = \<lparr>start_time = Some 0, end_time = Some 25200,
     duration_minutes = Some 420, awake_minutes = 20, light_minutes = 210,
     deep_minutes = 90, rem_minutes = 100, interruptions = 1,
     sleep_efficiency = Some 95, quality_score = None, quality_category = []\<rparr>"

text \<open>The same night with a supplied efficiency of 87, in the band scored 85.\<close>

definition efficiency_87_session :: sleep_session where
  "efficiency_87_session = scenario_session\<lparr>sleep_efficiency := Some 87\<rparr>"

text \<open>
  Two sessions that differ in \<open>deep_minutes\<close> only (10 and 11 of 100 and 101 minutes
  asleep): deep sleep stays in the 10--15% band while REM drops below 20%.
\<close>

definition deep_10_session :: sleep_session where
  "deep_10_session = \<lparr>start_time = Some 0, end_time = Some 25200,
     duration_minutes = Some 420, awake_minutes = 20, light_minutes = 70,
     deep_minutes = 10, rem_minutes = 20, interruptions = 1,
     sleep_efficiency = Some 95, quality_score = None, quality_category = []\<rparr>"

definition deep_11_session :: sleep_session where
  "deep_11_session = deep_10_session\<lparr>deep_minutes := 11\<rparr>"

text \<open>Two sessions with the same time asleep, deep sleep traded against light sleep.\<close>

definition deep_40_session :: sleep_session where
  "deep_40_session = \<lparr>start_time = Some 0, end_time = Some 28800,
     duration_minutes = Some 480, awake_minutes = 40, light_minutes = 300,
     deep_minutes = 40, rem_minutes = 100, interruptions = 3,
     sleep_efficiency = None, quality_score = None, quality_category = []\<rparr>"

definition deep_100_session :: sleep_session where
  "deep_100_session = deep_40_session\<lparr>light_minutes := 240, deep_minutes := 100\<rparr>"

definition deep_180_session :: sleep_session where
  "deep_180_session = deep_40_session\<lparr>light_minutes := 160, deep_minutes := 180\<rparr>"




section \<open>Trend analysis (\<open>health_analyzer.py\<close>, \<open>heart_rate_processor.py\<close>)\<close>

text \<open>
  The analysis functions return Python dictionaries whose keys depend on the branch
  taken. A dictionary is an association list in the order of the literal.
\<close>

datatype pyval = PNone | PInt int | PFloat real | PStr string | PTime real

type_synonym pydict = "(string \<times> pyval) list"

definition np_arange :: "nat \<Rightarrow> real list" where
  "np_arange n = map real [0..<n]"

text \<open>\<open>np.polyfit(x, y, 1)\<close>: slope and intercept of the least-squares line.\<close>

definition polyfit1 :: "real list \<Rightarrow> real list \<Rightarrow> real \<times> real" where
  "polyfit1 x y =
     (let mx = np_mean x; my = np_mean y;
          sxy = sum_list (map (\<lambda>(a, b). (a - mx) * (b - my)) (zip x y));
          sxx = sum_list (map (\<lambda>a. (a - mx)\<^sup>2) x);
          slope = sxy / sxx
      in (slope, my - slope * mx))"

text \<open>
  \<open>y_pred = slope * x + intercept\<close>, \<open>ss_res = np.sum((y - y_pred) ** 2)\<close>,
  \<open>ss_tot = np.sum((y - np.mean(y)) ** 2)\<close>,
  \<open>r_squared = 1 - (ss_res / ss_tot) if ss_tot != 0 else 0\<close>.
\<close>

definition r_squared :: "real list \<Rightarrow> real list \<Rightarrow> real \<Rightarrow> real \<Rightarrow> real" where
  "r_squared x y slope intercept =
     (let y_pred = map (\<lambda>a. slope * a + intercept) x;
          ss_res = sum_list (map (\<lambda>(b, p). (b - p)\<^sup>2) (zip y y_pred));
          ss_tot = sum_list (map (\<lambda>b. (b - np_mean y)\<^sup>2) y)
      in if ss_tot \<noteq> 0 then 1 - ss_res / ss_tot else 0)"

definition trend_slope :: "real list \<Rightarrow> real" where
  "trend_slope values = fst (polyfit1 (np_arange (length values)) values)"

definition trend_r_squared :: "real list \<Rightarrow> real" where
  "trend_r_squared values =
     (let x = np_arange (length values); (slope, intercept) = polyfit1 x values
      in r_squared x values slope intercept)"

text \<open>
  \<open>HealthAnalyzer._extract_trend\<close>. The argument is the list of
  \<open>getattr(summary, field)\<close> over the daily summaries; \<open>None\<close> values are skipped.
\<close>

definition field_values :: "real option list \<Rightarrow> real list" where
  "field_values fs = concat (map (\<lambda>v. case v of None \<Rightarrow> [] | Some a \<Rightarrow> [a]) fs)"

definition extract_trend :: "real option list \<Rightarrow> pydict" where
  "extract_trend fs =
     (let values = field_values fs
      in if length values < 2
         then [(''status'', PStr ''insufficient_data''), (''count'', PInt (int (length values)))]
         else
           (let avg_value = np_mean values;
                std_value = np_std values;
                slope = trend_slope values;
                r2 = trend_r_squared values;
                direction = (if slope > 0 \<and> r2 > 0.3 then ''increasing''
                             else if slope < 0 \<and> r2 > 0.3 then ''decreasing''
                             else ''stable'');
                first_value = hd values;
                last_value = last values;
                percentage_change = (if first_value \<noteq> 0
                                     then ((last_value - first_value) / first_value) * 100
                                     else 0)
            in [(''average'', PFloat (py_round avg_value 2)),
                (''standard_deviation'', PFloat (py_round std_value 2)),
                (''trend_direction'', PStr direction),
                (''trend_strength'', PFloat (py_round r2 3)),
                (''slope'', PFloat (py_round slope 4)),
                (''percentage_change'', PFloat (py_round percentage_change 2)),
                (''data_points'', PInt (int (length values))),
                (''current_value'', PFloat (last values)),
                (''min_value'', PFloat (fold min values (hd values))),
                (''max_value'', PFloat (fold max values (hd values)))]))"

text \<open>\<open>HeartRateProcessor._interpret_trend\<close> and \<open>HeartRateProcessor._analyze_trend\<close>.\<close>

definition interpret_trend :: "string \<Rightarrow> real \<Rightarrow> string" where
  "interpret_trend direction strength =
     (if strength < 0.3 then ''No clear trend detected.''
      else if direction = ''up'' then
        ''Heart rate showing an increasing trend. This may indicate increased stress, dehydration, or illness.''
      else if direction = ''down'' then
        ''Heart rate showing a decreasing trend. This may indicate improving fitness or better recovery.''
      else ''Heart rate is stable, which is generally a positive sign.'')"

definition analyze_trend :: "real list \<Rightarrow> pydict" where
  "analyze_trend bpm_values =
     (if length bpm_values < 2
      then [(''direction'', PStr ''insufficient_data''), (''strength'', PInt 0)]
      else
        (let slope = trend_slope bpm_values;
             direction = (if slope > 0.1 then ''up''
                          else if slope < - 0.1 then ''down''
                          else ''stable'');
             r2 = trend_r_squared bpm_values
         in [(''direction'', PStr direction),
             (''strength'', PFloat (py_round r2 3)),
             (''slope'', PFloat (py_round slope 3)),
             (''interpretation'', PStr (interpret_trend direction r2))]))"

text \<open>The noisy flat step series of the specification, and a steadily rising one.\<close>

definition noisy_flat_steps :: "real option list" where
  "noisy_flat_steps = [Some 4000, Some 4200, Some 3900, Some 4100, Some 4050]"

definition rising_steps :: "real option list" where
  "rising_steps = [Some 4000, None, Some 5000, Some 6000]"

section \<open>Heart-rate anomaly detection (\<open>heart_rate_processor.py\<close>)\<close>

text \<open>
  A row of \<open>HeartRateReading\<close>. The primary key is a UUID, used by the detector in its
  string form; timestamps are seconds. The table is the list of its rows.
\<close>

record reading =
  reading_id :: string
  user :: nat
  bpm :: int
  timestamp :: real
  hr_context :: string
  is_anomaly :: bool
  anomaly_type :: string

text \<open>
  \<open>HeartRateReading.objects.filter(user=user, timestamp__range=[start, end])
  .order_by('timestamp')\<close>; rows with equal timestamps keep their table order.
\<close>

definition readings_in_window :: "reading list \<Rightarrow> nat \<Rightarrow> real \<Rightarrow> real \<Rightarrow> reading list" where
  "readings_in_window db u t0 t1 =
     sort_key timestamp (filter (\<lambda>r. user r = u \<and> t0 \<le> timestamp r \<and> timestamp r \<le> t1) db)"

definition bpm_values_of :: "reading list \<Rightarrow> real list" where
  "bpm_values_of readings = map (\<lambda>r. real_of_int (bpm r)) readings"

text \<open>
  The z-score \<open>(reading.bpm - mean_bpm) / std_bpm\<close> is a double computed from numpy's
  mean and deviation, whose order of summation the source does not fix. The embedding
  computes mean, deviation and quotient exactly and adds the rounding error of that
  evaluation, which the detector takes as a parameter: \<open>rounding vs b\<close> is the error of
  the z-score of a reading of \<open>b\<close> bpm in a window with the bpm values \<open>vs\<close>. When
  the deviation is 0 the guard yields 0 and no rounding enters; the guard is decided on
  the exact deviation, which for whole bpm values is 0 exactly when the computed one is.
\<close>

definition z_score_of :: "(int \<Rightarrow> real) \<Rightarrow> real \<Rightarrow> real \<Rightarrow> reading \<Rightarrow> real" where
  "z_score_of err mean_bpm std_bpm r =
     (if std_bpm > 0 then (real_of_int (bpm r) - mean_bpm) / std_bpm + err (bpm r) else 0)"

text \<open>The body of the loop over the readings: at most one dictionary per reading.\<close>

definition point_anomaly :: "(int \<Rightarrow> real) \<Rightarrow> real \<Rightarrow> real \<Rightarrow> reading \<Rightarrow> pydict list" where
  "point_anomaly err mean_bpm std_bpm r =
     (let z_score = z_score_of err mean_bpm std_bpm r
      in if \<bar>z_score\<bar> > 3
         then [[(''type'', PStr (if z_score > 0 then ''high_heart_rate'' else ''low_heart_rate'')),
                (''value'', PInt (bpm r)),
                (''timestamp'', PTime (timestamp r)),
                (''z_score'', PFloat (py_round z_score 2)),
                (''severity'', PStr (if \<bar>z_score\<bar> > 4 then ''critical'' else ''high'')),
                (''context'', PStr (hr_context r)),
                (''reading_id'', PStr (reading_id r))]]
         else [])"

definition point_anomalies ::
  "(int \<Rightarrow> real) \<Rightarrow> real \<Rightarrow> real \<Rightarrow> reading list \<Rightarrow> pydict list" where
  "point_anomalies err mean_bpm std_bpm readings =
     concat (map (point_anomaly err mean_bpm std_bpm) readings)"

text \<open>\<open>_detect_hrv_issues\<close>: RMSSD and SDNN of the gaps between reading timestamps.\<close>

definition np_diff :: "real list \<Rightarrow> real list" where
  "np_diff xs = map (\<lambda>i. xs ! (i + 1) - xs ! i) [0..<length xs - 1]"

definition rr_intervals_of :: "real list \<Rightarrow> real list" where
  "rr_intervals_of timestamps =
     map (\<lambda>i. timestamps ! i - timestamps ! (i - 1)) [1..<length timestamps]"

definition rmssd_of :: "real list \<Rightarrow> real" where
  "rmssd_of rr_intervals =
     (let differences = np_diff rr_intervals;
          squared_diff = map (\<lambda>d. d\<^sup>2) differences;
          mean_squared = np_mean squared_diff
      in sqrt mean_squared * 1000)"

definition sdnn_of :: "real list \<Rightarrow> real" where
  "sdnn_of rr_intervals = np_std rr_intervals * 1000"

text \<open>
  \<open>detect_anomalies\<close> hands the \<open>QuerySet\<close> it built to \<open>_detect_patterns\<close>, which
  hands it on to \<open>_detect_hrv_issues\<close>. A \<open>QuerySet\<close> that has been evaluated (here by
  \<open>len\<close>) is iterated and sliced with non-negative bounds like the list of its rows,
  and a slice of it is a list; \<open>readings[-1]\<close> raises: Django's \<open>QuerySet\<close> does not
  support negative indexing.
\<close>

definition queryset_last :: "reading list \<Rightarrow> py_error + reading" where
  "queryset_last readings = Inl NegativeIndexing"

definition detect_hrv_issues :: "reading list \<Rightarrow> py_error + pydict list" where
  "detect_hrv_issues readings =
     (if length readings < 30 then Inr []
      else
        (let timestamps = map timestamp readings;
             rr_intervals = rr_intervals_of timestamps
         in if length rr_intervals < 20 then Inr []
            else
              (let rmssd = rmssd_of rr_intervals;
                   sdnn = sdnn_of rr_intervals;
                   low_hrv_threshold = 20;
                   very_low_hrv_threshold = 10
               in if rmssd < very_low_hrv_threshold
                  then (case queryset_last readings of
                          Inl e \<Rightarrow> Inl e
                        | Inr final \<Rightarrow>
                            Inr [[(''type'', PStr ''very_low_hrv''),
                                  (''value'', PFloat (py_round rmssd 1)),
                                  (''unit'', PStr ''ms''),
                                  (''metric'', PStr ''RMSSD''),
                                  (''threshold'', PInt 10),
                                  (''severity'', PStr ''high''),
                                  (''timestamp'', PTime (timestamp final)),
                                  (''interpretation'',
                                   PStr ''Very low HRV may indicate high stress, fatigue, or illness'')]])
                  else if rmssd < low_hrv_threshold
                  then (case queryset_last readings of
                          Inl e \<Rightarrow> Inl e
                        | Inr final \<Rightarrow>
                            Inr [[(''type'', PStr ''low_hrv''),
                                  (''value'', PFloat (py_round rmssd 1)),
                                  (''unit'', PStr ''ms''),
                                  (''metric'', PStr ''RMSSD''),
                                  (''threshold'', PInt 20),
                                  (''severity'', PStr ''medium''),
                                  (''timestamp'', PTime (timestamp final)),
                                  (''interpretation'',
                                   PStr ''Low HRV may indicate increased stress or poor recovery'')]])
                  else Inr [])))"

text \<open>
  \<open>_detect_patterns\<close>: the sliding windows of ten readings are scanned in order and
  the scan stops at the first one whose mean exceeds the mean by two deviations.
\<close>

fun sustained_scan :: "real \<Rightarrow> real \<Rightarrow> reading list list \<Rightarrow> pydict list" where
  "sustained_scan mean_bpm std_bpm [] = []"
| "sustained_scan mean_bpm std_bpm (w # ws) =
     (let window_mean = np_mean (bpm_values_of w)
      in if window_mean > mean_bpm + 2 * std_bpm
         then [[(''type'', PStr ''sustained_high_heart_rate''),
                (''average_value'', PFloat (py_round window_mean 1)),
                (''start_time'', PTime (timestamp (hd w))),
                (''end_time'', PTime (timestamp (last w))),
                (''duration_minutes'', PFloat ((timestamp (last w) - timestamp (hd w)) / 60)),
                (''severity'', PStr ''medium''),
                (''context'', PStr ''sustained_high'')]]
         else sustained_scan mean_bpm std_bpm ws)"

definition sliding_windows :: "reading list \<Rightarrow> reading list list" where
  "sliding_windows readings =
     (let window_size = 10
      in map (\<lambda>i. take window_size (drop i readings))
           [0..<length readings - window_size + 1])"

definition detect_patterns :: "reading list \<Rightarrow> real \<Rightarrow> real \<Rightarrow> py_error + pydict list" where
  "detect_patterns readings mean_bpm std_bpm =
     (if length readings < 20 then Inr []
      else
        (let sustained = sustained_scan mean_bpm std_bpm (sliding_windows readings)
         in case detect_hrv_issues readings of
              Inl e \<Rightarrow> Inl e
            | Inr hrv_anomalies \<Rightarrow> Inr (sustained @ hrv_anomalies)))"

text \<open>
  The list of anomalies \<open>detect_anomalies\<close> computes from the readings of the window,
  or the error raised on the way.
\<close>

definition window_anomalies ::
  "(real list \<Rightarrow> int \<Rightarrow> real) \<Rightarrow> reading list \<Rightarrow> py_error + pydict list" where
  "window_anomalies rounding readings =
     (if length readings < 10 then Inr []
      else
        (let bpm_values = bpm_values_of readings;
             mean_bpm = np_mean bpm_values;
             std_bpm = np_std bpm_values;
             anomalies = point_anomalies (rounding bpm_values) mean_bpm std_bpm readings
         in case detect_patterns readings mean_bpm std_bpm of
              Inl e \<Rightarrow> Inl e
            | Inr pattern_anomalies \<Rightarrow> Inr (anomalies @ pattern_anomalies)))"

text \<open>The anomalies a run hands back: none when it raises.\<close>

fun reported :: "py_error + pydict list \<Rightarrow> pydict list" where
  "reported (Inl e) = []"
| "reported (Inr anomalies) = anomalies"

text \<open>
  \<open>_mark_anomalies_in_database\<close>: for a dictionary with a \<open>reading_id\<close>, the row is
  fetched by its key (a missing row is skipped), flagged, and saved under its key. Every
  dictionary the detector builds has a \<open>type\<close>.
\<close>

definition mark_anomaly :: "pydict \<Rightarrow> reading list \<Rightarrow> reading list" where
  "mark_anomaly anomaly db =
     (case (map_of anomaly ''reading_id'', map_of anomaly ''type'') of
        (Some (PStr i), Some (PStr t)) \<Rightarrow>
          (case find (\<lambda>r. reading_id r = i) db of
             None \<Rightarrow> db
           | Some r \<Rightarrow>
               map (\<lambda>x. if reading_id x = i then r\<lparr>is_anomaly := True, anomaly_type := t\<rparr> else x) db)
      | _ \<Rightarrow> db)"

definition mark_anomalies_in_database :: "pydict list \<Rightarrow> reading list \<Rightarrow> reading list" where
  "mark_anomalies_in_database anomalies db = fold mark_anomaly anomalies db"

text \<open>
  \<open>detect_anomalies\<close> returns the anomalies and leaves the table updated; an error
  raised before the marking leaves the table as it was.
\<close>

definition detect_anomalies ::
  "(real list \<Rightarrow> int \<Rightarrow> real) \<Rightarrow> reading list \<Rightarrow> nat \<Rightarrow> real \<Rightarrow> real
   \<Rightarrow> py_error + (pydict list \<times> reading list)" where
  "detect_anomalies rounding db u t0 t1 =
     (let readings = readings_in_window db u t0 t1
      in if length readings < 10 then Inr ([], db)
         else (case window_anomalies rounding readings of
                 Inl e \<Rightarrow> Inl e
               | Inr anomalies \<Rightarrow> Inr (anomalies, mark_anomalies_in_database anomalies db)))"

text \<open>
  The z-score of a reading as the claims speak of it, and as the detector computes it
  when the deviation is positive.
\<close>

definition exact_z :: "reading list \<Rightarrow> reading \<Rightarrow> real" where
  "exact_z readings r =
     (real_of_int (bpm r) - np_mean (bpm_values_of readings)) / np_std (bpm_values_of readings)"

definition computed_z :: "(real list \<Rightarrow> int \<Rightarrow> real) \<Rightarrow> reading list \<Rightarrow> reading \<Rightarrow> real" where
  "computed_z rounding readings r = exact_z readings r + rounding (bpm_values_of readings) (bpm r)"

text \<open>Evaluation without rounding error: exact where every intermediate value is a double.\<close>

definition exact_arithmetic :: "real list \<Rightarrow> int \<Rightarrow> real" where
  "exact_arithmetic vs b = 0"

text \<open>Test readings: one per minute, in the rest context, for user 7.\<close>

definition uuid_of :: "nat \<Rightarrow> string" where
  "uuid_of i = ''reading-'' @ replicate i (CHR ''i'')"

definition rest_reading :: "int \<Rightarrow> nat \<Rightarrow> reading" where
  "rest_reading b i = \<lparr>reading_id = uuid_of i, user = 7, bpm = b,
     timestamp = 60 * real i, hr_context = ''rest'', is_anomaly = False, anomaly_type = []\<rparr>"

text \<open>Twenty-five readings of 60 bpm and one of 86: mean 61, deviation 5, z-score 5.\<close>

definition spike_window :: "reading list" where
  "spike_window = map (rest_reading 60) [0..<25] @ [rest_reading 86 25]"

text \<open>
  Seven readings of 60 bpm, six of 62 and one of 76: mean 62, deviation 4, z-scores
  -0.5, 0 and 3.5, every intermediate value a double.
\<close>

definition mild_window :: "reading list" where
  "mild_window = map (rest_reading 60) [0..<7] @ map (rest_reading 62) [7..<13]
                 @ [rest_reading 76 13]"


definition mild_anomaly :: pydict where
  "mild_anomaly =
     [(''type'', PStr ''high_heart_rate''), (''value'', PInt 76),
      (''timestamp'', PTime 780), (''z_score'', PFloat 3.5),
      (''severity'', PStr ''high''), (''context'', PStr ''rest''),
      (''reading_id'', PStr (uuid_of 13))]"

text \<open>Thirty readings of 70 bpm, one per minute, and the first twelve of them.\<close>

definition constant_window :: "reading list" where
  "constant_window = map (rest_reading 70) [0..<30]"

definition short_constant_window :: "reading list" where
  "short_constant_window = map (rest_reading 70) [0..<12]"

text \<open>
  Auxiliary notions for the marking of rows: a row with its two anomaly fields reset, the
  key and type a dictionary marks, the effect of one dictionary on one row, and the last
  type written for a key by a list of dictionaries.
\<close>

definition clear_marks :: "reading \<Rightarrow> reading" where
  "clear_marks r = r\<lparr>is_anomaly := False, anomaly_type := []\<rparr>"

definition mark_target :: "pydict \<Rightarrow> (string \<times> string) option" where
  "mark_target anomaly =
     (case (map_of anomaly ''reading_id'', map_of anomaly ''type'') of
        (Some (PStr i), Some (PStr t)) \<Rightarrow> Some (i, t)
      | _ \<Rightarrow> None)"

definition row_mark :: "pydict \<Rightarrow> reading \<Rightarrow> reading" where
  "row_mark anomaly r =
     (case mark_target anomaly of
        Some (i, t) \<Rightarrow>
          if reading_id r = i then r\<lparr>is_anomaly := True, anomaly_type := t\<rparr> else r
      | None \<Rightarrow> r)"

fun apply_mark :: "string option \<Rightarrow> reading \<Rightarrow> reading" where
  "apply_mark None r = r"
| "apply_mark (Some t) r = r\<lparr>is_anomaly := True, anomaly_type := t\<rparr>"

definition mark_step :: "string \<Rightarrow> pydict \<Rightarrow> string option \<Rightarrow> string option" where
  "mark_step i anomaly acc =
     (case mark_target anomaly of
        Some (j, t) \<Rightarrow> if i = j then Some t else acc
      | None \<Rightarrow> acc)"

section \<open>Rounding lemmas\<close>

lemma round_half_even_mono:
  assumes "x \<le> y"
  shows "round_half_even x \<le> round_half_even y"
proof (cases "\<lfloor>x\<rfloor> = \<lfloor>y\<rfloor>")
  case True
  with assms have "x - of_int \<lfloor>x\<rfloor> \<le> y - of_int \<lfloor>y\<rfloor>" by simp
  with True show ?thesis
    by (auto simp: round_half_even_def Let_def)
next
  case False
  with assms have less: "\<lfloor>x\<rfloor> < \<lfloor>y\<rfloor>"
    using floor_mono [of x y] by linarith
  have "round_half_even x \<le> \<lfloor>x\<rfloor> + 1"
    by (simp add: round_half_even_def Let_def)
  moreover have "\<lfloor>y\<rfloor> \<le> round_half_even y"
    by (simp add: round_half_even_def Let_def)
  ultimately show ?thesis using less by linarith
qed

lemma round_half_even_of_int [simp]: "round_half_even (of_int k) = k"
  by (simp add: round_half_even_def)

lemma round_half_even_numeral [simp]: "round_half_even (numeral k) = numeral k"
  using round_half_even_of_int [of "numeral k"] by simp

lemma round_half_even_zero [simp]: "round_half_even 0 = 0"
  using round_half_even_of_int [of 0] by simp

lemma py_round_mono: "x \<le> y \<Longrightarrow> py_round x n \<le> py_round y n"
  unfolding py_round_def
  by (intro divide_right_mono round_half_even_mono mult_right_mono)
     (simp_all add: round_half_even_mono)

lemma py_round_exact:
  "v * 10 ^ n = of_int k \<Longrightarrow> py_round v n = v"
  by (simp add: py_round_def nonzero_divide_eq_eq)

lemma py_round_zero [simp]: "py_round 0 n = 0"
  by (rule py_round_exact [where k = 0]) simp

lemma py_round_numeral [simp]: "py_round (numeral k) n = numeral k"
  by (rule py_round_exact [where k = "numeral k * 10 ^ n"]) simp

section \<open>Doubles\<close>

lemma float64_exponent:
  assumes "2 powi e \<le> \<bar>x\<bar>" and "\<bar>x\<bar> < 2 powi (e + 1)"
  shows "\<lfloor>log 2 \<bar>x\<bar>\<rfloor> = e"
proof -
  have pos: "0 < \<bar>x\<bar>"
    using assms(1) by (smt (verit) zero_less_power_int)
  have 1: "(2::real) powr (of_int e) = 2 powi e"
    by (simp add: powr_real_of_int')
  have 2: "(2::real) powr (of_int e + 1) = 2 powi (e + 1)"
    using powr_real_of_int' [of "2::real" "e + 1"] by simp
  have "of_int e \<le> log 2 \<bar>x\<bar>"
    using assms(1) pos by (simp add: le_log_iff 1)
  moreover have "log 2 \<bar>x\<bar> < of_int e + 1"
    using assms(2) pos 2 by (simp add: log_less_iff)
  ultimately show ?thesis by (simp add: floor_eq_iff)
qed

lemma float64_eval:
  assumes "2 powi e \<le> \<bar>x\<bar>" and "\<bar>x\<bar> < 2 powi (e + 1)"
  shows "float64 x = of_int (round_half_even (x * 2 powi (52 - e))) * 2 powi (e - 52)"
proof -
  from assms(1) have "x \<noteq> 0"
    by (smt (verit) zero_less_power_int)
  then show ?thesis
    by (simp add: float64_def Let_def float64_exponent [OF assms])
qed



lemma float64_one [simp]: "float64 1 = 1"
  by (subst float64_eval [where e = 0]) simp_all

lemma float64_hundred [simp]: "float64 100 = 100"
  by (subst float64_eval [where e = 6]) simp_all

text \<open>440 of 480 minutes asleep: 91.66666666666666 in doubles.\<close>

lemma efficiency_11_of_12:
  "float64 (float64 (11 / 12) * 100) = 3225234108142933 / 35184372088832"
  by (subst float64_eval [where e = "-1"], simp, simp, subst float64_eval [where e = 6])
     (simp_all add: round_half_even_def Let_def)


section \<open>Daily health score: range\<close>

lemma activity_score_range:
  assumes "\<And>n. total_steps ds = Some n \<Longrightarrow> 0 \<le> n"
  shows "0 \<le> activity_score ds \<and> activity_score ds \<le> 100"
proof (cases "total_steps ds")
  case None
  then show ?thesis by (simp add: activity_score_def)
next
  case (Some n)
  with assms have "0 \<le> n" by simp
  with Some show ?thesis by (simp add: activity_score_def)
qed

lemma sleep_subscore_range:
  assumes "\<And>v. sleep_score ds = Some v \<Longrightarrow> 0 \<le> v \<and> v \<le> 100"
  shows "0 \<le> sleep_subscore ds \<and> sleep_subscore ds \<le> 100"
proof (cases "sleep_score ds")
  case None
  then show ?thesis by (simp add: sleep_subscore_def Let_def)
next
  case (Some v)
  with assms have "0 \<le> v \<and> v \<le> 100" by simp
  with Some show ?thesis by (simp add: sleep_subscore_def Let_def)
qed

lemma heart_score_range: "50 \<le> heart_score ds \<and> heart_score ds \<le> 90"
  by (simp add: heart_score_def Let_def)

lemma recovery_subscore_range:
  assumes "\<And>v. recovery_score ds = Some v \<Longrightarrow> 0 \<le> v \<and> v \<le> 100"
  shows "0 \<le> recovery_subscore ds \<and> recovery_subscore ds \<le> 100"
proof (cases "recovery_score ds")
  case None
  then show ?thesis by (simp add: recovery_subscore_def)
next
  case (Some v)
  with assms have "0 \<le> v \<and> v \<le> 100" by simp
  with Some show ?thesis by (simp add: recovery_subscore_def)
qed

text \<open>
  Claim C1, as stated, fails: the weighted sum is rounded but never clamped. For the day
  \<open>extreme_day\<close> (sleep score 1000, nothing else recorded) the score is
  \<open>0 * 0.35 + 1000 * 0.35 + 70 * 0.20 + 75 * 0.10 = 371.5\<close>, above 100.
\<close>

theorem daily_health_score_unclamped:
  "calculate_daily_health_score extreme_day = 371.5
   \<and> \<not> calculate_daily_health_score extreme_day \<le> 100"
proof -
  have "py_round (743 / 2) 1 = 743 / 2"
    by (rule py_round_exact [where k = 3715]) simp
  then show ?thesis
    by (simp add: calculate_daily_health_score_def extreme_day_def activity_score_def
        sleep_subscore_def heart_score_def recovery_subscore_def)
qed

text \<open>
  Claim C1, amended: when a supplied \<open>sleep_score\<close> and a supplied
  \<open>recovery_score\<close> lie in [0,100] and the step count is not negative, the daily overall health score, the weighted combination
  activity 35%, sleep 35%, heart 20%, recovery 10% rounded to one decimal, lies in [0,100].
\<close>

theorem daily_health_score_in_range:
  assumes steps: "\<And>n. total_steps ds = Some n \<Longrightarrow> 0 \<le> n"
    and sleep: "\<And>v. sleep_score ds = Some v \<Longrightarrow> 0 \<le> v \<and> v \<le> 100"
    and recovery: "\<And>v. recovery_score ds = Some v \<Longrightarrow> 0 \<le> v \<and> v \<le> 100"
  shows "0 \<le> calculate_daily_health_score ds \<and> calculate_daily_health_score ds \<le> 100"
proof -
  define t where "t = activity_score ds * 0.35 + sleep_subscore ds * 0.35
                      + heart_score ds * 0.20 + recovery_subscore ds * 0.10"
  have a: "0 \<le> activity_score ds \<and> activity_score ds \<le> 100"
    by (rule activity_score_range) (rule steps)
  have s: "0 \<le> sleep_subscore ds \<and> sleep_subscore ds \<le> 100"
    by (rule sleep_subscore_range) (rule sleep)
  have r: "0 \<le> recovery_subscore ds \<and> recovery_subscore ds \<le> 100"
    by (rule recovery_subscore_range) (rule recovery)
  have t: "0 \<le> t" "t \<le> 100"
    using a s r heart_score_range [of ds] unfolding t_def by simp_all
  have "py_round 0 1 \<le> py_round t 1" and "py_round t 1 \<le> py_round 100 1"
    by (rule py_round_mono [OF t(1)]) (rule py_round_mono [OF t(2)])
  then show ?thesis
    by (simp add: calculate_daily_health_score_def t_def)
qed

theorem daily_health_score_in_range_witness:
  "0 \<le> calculate_daily_health_score typical_day
   \<and> calculate_daily_health_score typical_day \<le> 100"
  using daily_health_score_in_range [of typical_day]
  by (simp add: typical_day_def)

section \<open>Sleep score and efficiency\<close>


lemmas sleep_factor_defs = duration_factor_def efficiency_factor_def deep_sleep_factor_def
  rem_sleep_factor_def interruption_factor_def deep_sleep_percentage_def
  rem_sleep_percentage_def total_sleep_minutes_def

lemma deep_sleep_factor_rising:
  "p \<le> q \<Longrightarrow> q \<le> 25 \<Longrightarrow> deep_sleep_factor p \<le> deep_sleep_factor q"
  by (auto simp: deep_sleep_factor_def)

lemma deep_sleep_factor_falling:
  "15 \<le> p \<Longrightarrow> p \<le> q \<Longrightarrow> deep_sleep_factor q \<le> deep_sleep_factor p"
  by (auto simp: deep_sleep_factor_def)

text \<open>
  Claim C5, as stated, fails in its first half: the function returns the weighted sum
  rounded to one decimal, not the sum itself. With a supplied efficiency of 87 the sum is
  \<open>30 + 21.25 + 20 + 15 + 10 = 96.25\<close> and the returned score is 96.2.
\<close>
theorem sleep_score_not_plain_weighted_sum:
  "weighted_sleep_total efficiency_87_session 420 87 = 96.25
   \<and> calculate_sleep_score efficiency_87_session = Inr 96.2
   \<and> calculate_sleep_score efficiency_87_session
       \<noteq> Inr (weighted_sleep_total efficiency_87_session 420 87)"
proof -
  have w: "weighted_sleep_total efficiency_87_session 420 87 = 385 / 4"
    by (simp add: weighted_sleep_total_def efficiency_87_session_def scenario_session_def
        sleep_factor_defs)
  have r: "py_round (385 / 4) 1 = 481 / 5"
    by (simp add: py_round_def round_half_even_def Let_def)
  have d: "duration_minutes efficiency_87_session = Some 420"
    by (simp add: efficiency_87_session_def scenario_session_def)
  have e: "derived_efficiency efficiency_87_session = Inr 87"
    by (simp add: derived_efficiency_def efficiency_87_session_def scenario_session_def)
  have "calculate_sleep_score efficiency_87_session
        = Inr (py_round (weighted_sleep_total efficiency_87_session 420 87) 1)"
    by (simp add: calculate_sleep_score_def d e)
  then have "calculate_sleep_score efficiency_87_session = Inr (481 / 5)"
    unfolding w r .
  with w show ?thesis by simp
qed

text \<open>
  Claim C5, amended: \<open>_calculate_sleep_score\<close> equals the weighted sum (duration factor
  x 0.30 + efficiency factor x 0.25 + deep-sleep factor x 0.20 + REM factor x 0.15 +
  interruption factor x 0.10) of the piecewise factor tables, rounded to one decimal; and
  for the session with duration 420 min, deep 90, rem 100, light 210, awake 20, one
  interruption and efficiency 95 the score is 100, hence at least 85.
\<close>
theorem sleep_score_weighted_sum:
  "(\<forall>s d e. duration_minutes s = Some d \<longrightarrow> derived_efficiency s = Inr e \<longrightarrow>
      calculate_sleep_score s =
        Inr (py_round (duration_factor (real_of_int d / 60) * 0.30
                       + efficiency_factor e * 0.25
                       + deep_sleep_factor (deep_sleep_percentage s) * 0.20
                       + rem_sleep_factor (rem_sleep_percentage s) * 0.15
                       + interruption_factor (interruptions s) * 0.10) 1))
   \<and> calculate_sleep_score scenario_session = Inr 100
   \<and> (\<exists>v. calculate_sleep_score scenario_session = Inr v \<and> 85 \<le> v)"
proof -
  have "calculate_sleep_score scenario_session = Inr 100"
    by (simp add: calculate_sleep_score_def derived_efficiency_def weighted_sleep_total_def
        scenario_session_def sleep_factor_defs py_round_def)
  then show ?thesis
    by (simp add: calculate_sleep_score_def weighted_sleep_total_def)
qed

theorem sleep_score_weighted_sum_witness:
  "duration_minutes efficiency_87_session = Some 420
   \<and> derived_efficiency efficiency_87_session = Inr 87
   \<and> calculate_sleep_score efficiency_87_session
       = Inr (py_round (100 * 0.30 + 85 * 0.25 + 100 * 0.20 + 100 * 0.15 + 100 * 0.10) 1)
   \<and> calculate_sleep_score scenario_session = Inr 100"
proof -
  have d: "duration_minutes efficiency_87_session = Some 420"
    by (simp add: efficiency_87_session_def scenario_session_def)
  have e: "derived_efficiency efficiency_87_session = Inr 87"
    by (simp add: derived_efficiency_def efficiency_87_session_def scenario_session_def)
  from sleep_score_weighted_sum d e
  have "calculate_sleep_score efficiency_87_session =
        Inr (py_round (duration_factor (real_of_int 420 / 60) * 0.30
                       + efficiency_factor 87 * 0.25
                       + deep_sleep_factor (deep_sleep_percentage efficiency_87_session) * 0.20
                       + rem_sleep_factor (rem_sleep_percentage efficiency_87_session) * 0.15
                       + interruption_factor (interruptions efficiency_87_session) * 0.10) 1)"
    by blast
  moreover have "calculate_sleep_score scenario_session = Inr 100"
    using sleep_score_weighted_sum by blast
  ultimately show ?thesis using d e
    by (simp add: efficiency_87_session_def scenario_session_def sleep_factor_defs)
qed

text \<open>
  Claim C6, as stated, fails: with every other field of the session fixed, raising
  \<open>deep_minutes\<close> from 10 to 11 raises the deep-sleep percentage from 10 to about
  10.9, still below the optimal band, and lowers the score from 94 to 89.5, because the
  time asleep grows and the REM percentage falls from 20 to about 19.8.
\<close>
theorem sleep_score_deep_minutes_not_monotone:
  "deep_11_session = deep_10_session\<lparr>deep_minutes := 11\<rparr>
   \<and> deep_sleep_percentage deep_10_session < deep_sleep_percentage deep_11_session
   \<and> deep_sleep_percentage deep_11_session \<le> 15
   \<and> calculate_sleep_score deep_10_session = Inr 94
   \<and> calculate_sleep_score deep_11_session = Inr 89.5"
proof -
  have r2: "py_round (179 / 2) 1 = 179 / 2"
    by (rule py_round_exact [where k = 895]) simp
  show ?thesis
    using r2
    by (simp add: calculate_sleep_score_def derived_efficiency_def weighted_sleep_total_def
        deep_11_session_def deep_10_session_def sleep_factor_defs)
qed

text \<open>
  Claim C6, amended: between two sessions with the same duration, the same efficiency,
  the same REM percentage and the same interruption count, the score does not decrease
  when the deep-sleep percentage rises and stays at or below 25, and does not increase
  when it rises from 15 or above: the score is unimodal in the deep-sleep percentage.
\<close>
theorem sleep_score_unimodal_in_deep_percentage:
  assumes "duration_minutes s = Some d" and "duration_minutes s' = Some d"
    and "derived_efficiency s = Inr e" and "derived_efficiency s' = Inr e"
    and "rem_sleep_percentage s = rem_sleep_percentage s'"
    and "interruptions s = interruptions s'"
    and "calculate_sleep_score s = Inr a" and "calculate_sleep_score s' = Inr b"
    and "deep_sleep_percentage s \<le> deep_sleep_percentage s'"
  shows "(deep_sleep_percentage s' \<le> 25 \<longrightarrow> a \<le> b)
       \<and> (15 \<le> deep_sleep_percentage s \<longrightarrow> b \<le> a)"
proof -
  have a: "a = py_round (weighted_sleep_total s d e) 1"
    and b: "b = py_round (weighted_sleep_total s' d e) 1"
    using assms by (simp_all add: calculate_sleep_score_def)
  have "weighted_sleep_total s d e \<le> weighted_sleep_total s' d e"
    if "deep_sleep_percentage s' \<le> 25"
    using deep_sleep_factor_rising [OF assms(9) that] assms(5,6)
    by (simp add: weighted_sleep_total_def)
  moreover have "weighted_sleep_total s' d e \<le> weighted_sleep_total s d e"
    if "15 \<le> deep_sleep_percentage s"
    using deep_sleep_factor_falling [OF that assms(9)] assms(5,6)
    by (simp add: weighted_sleep_total_def)
  ultimately show ?thesis
    unfolding a b by (blast intro: py_round_mono)
qed

theorem sleep_score_unimodal_in_deep_percentage_witness:
  "deep_sleep_percentage deep_40_session \<le> deep_sleep_percentage deep_100_session
   \<and> deep_sleep_percentage deep_100_session \<le> 25
   \<and> calculate_sleep_score deep_40_session = Inr 85
   \<and> calculate_sleep_score deep_100_session = Inr 97
   \<and> 15 \<le> deep_sleep_percentage deep_100_session
   \<and> deep_sleep_percentage deep_100_session \<le> deep_sleep_percentage deep_180_session
   \<and> calculate_sleep_score deep_180_session = Inr 81
   \<and> (85::real) \<le> 97 \<and> (81::real) \<le> 97"
proof -
  let ?e = "3225234108142933 / 35184372088832 :: real"
  have d: "duration_minutes deep_40_session = Some 480"
    "duration_minutes deep_100_session = Some 480"
    "duration_minutes deep_180_session = Some 480"
    by (simp_all add: deep_40_session_def deep_100_session_def deep_180_session_def)
  have e: "derived_efficiency deep_40_session = Inr ?e"
    "derived_efficiency deep_100_session = Inr ?e"
    "derived_efficiency deep_180_session = Inr ?e"
    by (simp_all add: derived_efficiency_def total_sleep_minutes_def efficiency_11_of_12
        deep_40_session_def deep_100_session_def deep_180_session_def)
  have m: "rem_sleep_percentage deep_40_session = rem_sleep_percentage deep_100_session"
    "rem_sleep_percentage deep_100_session = rem_sleep_percentage deep_180_session"
    by (simp_all add: rem_sleep_percentage_def total_sleep_minutes_def
        deep_40_session_def deep_100_session_def deep_180_session_def)
  have i: "interruptions deep_40_session = interruptions deep_100_session"
    "interruptions deep_100_session = interruptions deep_180_session"
    by (simp_all add: deep_40_session_def deep_100_session_def deep_180_session_def)
  have p: "deep_sleep_percentage deep_40_session \<le> deep_sleep_percentage deep_100_session"
    "deep_sleep_percentage deep_100_session \<le> 25"
    "15 \<le> deep_sleep_percentage deep_100_session"
    "deep_sleep_percentage deep_100_session \<le> deep_sleep_percentage deep_180_session"
    by (simp_all add: deep_sleep_percentage_def total_sleep_minutes_def
        deep_40_session_def deep_100_session_def deep_180_session_def)
  have c: "calculate_sleep_score deep_40_session = Inr 85"
    "calculate_sleep_score deep_100_session = Inr 97"
    "calculate_sleep_score deep_180_session = Inr 81"
    by (simp_all add: calculate_sleep_score_def derived_efficiency_def weighted_sleep_total_def
        efficiency_11_of_12 sleep_factor_defs
        deep_40_session_def deep_100_session_def deep_180_session_def)
  have "(85::real) \<le> 97"
    using sleep_score_unimodal_in_deep_percentage
      [OF d(1) d(2) e(1) e(2) m(1) i(1) c(1) c(2) p(1)] p(2) by blast
  moreover have "(81::real) \<le> 97"
    using sleep_score_unimodal_in_deep_percentage
      [OF d(2) d(3) e(2) e(3) m(2) i(2) c(2) c(3) p(4)] p(3) by blast
  ultimately show ?thesis using p c by simp
qed








section \<open>Trend direction and insufficient data\<close>


lemma zip_const_pred:
  "length x = length y \<Longrightarrow>
   map (\<lambda>(b, p). (b - p)\<^sup>2) (zip y (map (\<lambda>a. c) x)) = map (\<lambda>b. (b - c)\<^sup>2) y"
  by (induction x y rule: list_induct2) simp_all

lemma r_squared_flat:
  assumes "length x = length y"
  shows "r_squared x y 0 (np_mean y) = 0"
  using zip_const_pred [OF assms, of "np_mean y"]
  by (simp add: r_squared_def Let_def)

lemma polyfit1_intercept:
  "snd (polyfit1 x y) = np_mean y - fst (polyfit1 x y) * np_mean x"
  by (simp add: polyfit1_def Let_def)

lemma trend_r_squared_unfold:
  "trend_r_squared vs =
   r_squared (np_arange (length vs)) vs (trend_slope vs)
     (np_mean vs - trend_slope vs * np_mean (np_arange (length vs)))"
  using polyfit1_intercept [of "np_arange (length vs)" vs]
  by (simp add: trend_r_squared_def trend_slope_def Let_def split_beta)

lemma trend_r_squared_flat:
  assumes "trend_slope vs = 0"
  shows "trend_r_squared vs = 0"
proof -
  have "length (np_arange (length vs)) = length vs"
    by (simp add: np_arange_def)
  then have "r_squared (np_arange (length vs)) vs 0 (np_mean vs) = 0"
    by (rule r_squared_flat)
  then show ?thesis
    unfolding trend_r_squared_unfold assms by simp
qed

lemma flat_values: "field_values noisy_flat_steps = [4000, 4200, 3900, 4100, 4050]"
  by (simp add: field_values_def noisy_flat_steps_def)

lemma flat_slope: "trend_slope [4000, 4200, 3900, 4100, 4050] = 0"
  by (simp add: trend_slope_def polyfit1_def Let_def np_arange_def np_mean_def)

lemma rising_values: "field_values rising_steps = [4000, 5000, 6000]"
  by (simp add: field_values_def rising_steps_def)

lemma rising_slope: "trend_slope [4000, 5000, 6000] = 1000"
  by (simp add: trend_slope_def polyfit1_def Let_def np_arange_def np_mean_def power2_eq_square)

lemma rising_r_squared: "trend_r_squared [4000, 5000, 6000] = 1"
  unfolding trend_r_squared_unfold rising_slope
  by (simp add: r_squared_def Let_def np_arange_def np_mean_def)

lemma extract_trend_direction_lookup:
  assumes "2 \<le> length (field_values fs)"
  shows "map_of (extract_trend fs) ''trend_direction'' =
         Some (PStr (if trend_slope (field_values fs) > 0 \<and> trend_r_squared (field_values fs) > 0.3
                     then ''increasing''
                     else if trend_slope (field_values fs) < 0
                             \<and> trend_r_squared (field_values fs) > 0.3
                     then ''decreasing'' else ''stable''))"
  using assms by (simp add: extract_trend_def Let_def)

lemma extract_trend_direction_rule:
  "(\<forall>fs. 2 \<le> length (field_values fs) \<longrightarrow>
      (map_of (extract_trend fs) ''trend_direction'' = Some (PStr ''increasing'')
       \<or> map_of (extract_trend fs) ''trend_direction'' = Some (PStr ''decreasing'')
       \<longrightarrow> trend_r_squared (field_values fs) > 0.3)
      \<and> (\<not> trend_r_squared (field_values fs) > 0.3
           \<longrightarrow> map_of (extract_trend fs) ''trend_direction'' = Some (PStr ''stable''))
      \<and> (trend_r_squared (field_values fs) > 0.3
           \<longrightarrow> map_of (extract_trend fs) ''trend_direction'' \<noteq> Some (PStr ''stable'')))
   \<and> map_of (extract_trend noisy_flat_steps) ''trend_direction'' = Some (PStr ''stable'')"
proof (intro conjI allI impI)
  fix fs
  assume len: "2 \<le> length (field_values fs)"
  note d = extract_trend_direction_lookup [OF len]
  show "trend_r_squared (field_values fs) > 0.3"
    if "map_of (extract_trend fs) ''trend_direction'' = Some (PStr ''increasing'')
        \<or> map_of (extract_trend fs) ''trend_direction'' = Some (PStr ''decreasing'')"
    using that unfolding d by (auto split: if_splits)
  show "map_of (extract_trend fs) ''trend_direction'' = Some (PStr ''stable'')"
    if "\<not> trend_r_squared (field_values fs) > 0.3"
    using that unfolding d by simp
  show "map_of (extract_trend fs) ''trend_direction'' \<noteq> Some (PStr ''stable'')"
    if r: "trend_r_squared (field_values fs) > 0.3"
  proof -
    have "trend_slope (field_values fs) \<noteq> 0"
      using trend_r_squared_flat [of "field_values fs"] r by auto
    then have "trend_slope (field_values fs) > 0 \<or> trend_slope (field_values fs) < 0"
      by linarith
    with r show ?thesis unfolding d by auto
  qed
next
  have len: "2 \<le> length (field_values noisy_flat_steps)"
    by (simp add: flat_values)
  show "map_of (extract_trend noisy_flat_steps) ''trend_direction'' = Some (PStr ''stable'')"
    unfolding extract_trend_direction_lookup [OF len] flat_values flat_slope by simp
qed

lemma analyze_trend_direction_lookup:
  assumes "2 \<le> length bpm_values"
  shows "map_of (analyze_trend bpm_values) ''direction'' =
         Some (PStr (if trend_slope bpm_values > 0.1 then ''up''
                     else if trend_slope bpm_values < - 0.1 then ''down''
                     else ''stable''))"
  using assms by (simp add: analyze_trend_def Let_def)

text \<open>
  Claim C7, as stated, fails on \<open>HeartRateProcessor._analyze_trend\<close>, the second trend
  function: it takes the direction from the slope alone. The series 60, 80, 61, 79, 63 has
  slope 0.5 and an R-squared of about 0.006, and is reported as \<open>up\<close>, not \<open>stable\<close>.
\<close>
theorem analyze_trend_direction_ignores_r_squared:
  "map_of (analyze_trend [60, 80, 61, 79, 63]) ''direction'' = Some (PStr ''up'')
   \<and> trend_r_squared [60, 80, 61, 79, 63] < 0.3"
proof -
  have s: "trend_slope [60, 80, 61, 79, 63] = 1 / 2"
    by (simp add: trend_slope_def polyfit1_def Let_def np_arange_def np_mean_def power2_eq_square)
  have r: "trend_r_squared [60, 80, 61, 79, 63] < 0.3"
    unfolding trend_r_squared_unfold s
    by (simp add: r_squared_def Let_def np_arange_def np_mean_def power2_eq_square)
  have "map_of (analyze_trend [60, 80, 61, 79, 63]) ''direction'' = Some (PStr ''up'')"
    by (simp add: analyze_trend_def Let_def s)
  with r show ?thesis by simp
qed

text \<open>
  Claim C7, amended: for every daily-value series with at least two points,
  \<open>HealthAnalyzer._extract_trend\<close> reports the direction "increasing" or "decreasing" only
  when the R-squared of the linear regression exceeds 0.3 and reports "stable" otherwise
  (never "stable" when R-squared exceeds 0.3), and the noisy flat series 4000, 4200, 3900,
  4100, 4050 yields "stable". \<open>HeartRateProcessor._analyze_trend\<close> does not consult
  R-squared for the direction: for at least two values it reports "up" when the slope
  exceeds 0.1, "down" when it is below -0.1 and "stable" otherwise; it too reports "stable"
  for the noisy flat series.
\<close>
theorem trend_direction_rules:
  "(\<forall>fs. 2 \<le> length (field_values fs) \<longrightarrow>
      (map_of (extract_trend fs) ''trend_direction'' = Some (PStr ''increasing'')
       \<or> map_of (extract_trend fs) ''trend_direction'' = Some (PStr ''decreasing'')
       \<longrightarrow> trend_r_squared (field_values fs) > 0.3)
      \<and> (\<not> trend_r_squared (field_values fs) > 0.3
           \<longrightarrow> map_of (extract_trend fs) ''trend_direction'' = Some (PStr ''stable''))
      \<and> (trend_r_squared (field_values fs) > 0.3
           \<longrightarrow> map_of (extract_trend fs) ''trend_direction'' \<noteq> Some (PStr ''stable'')))
   \<and> map_of (extract_trend noisy_flat_steps) ''trend_direction'' = Some (PStr ''stable'')
   \<and> (\<forall>bpm_values. 2 \<le> length bpm_values \<longrightarrow>
         map_of (analyze_trend bpm_values) ''direction'' =
           Some (PStr (if trend_slope bpm_values > 0.1 then ''up''
                       else if trend_slope bpm_values < - 0.1 then ''down''
                       else ''stable'')))
   \<and> map_of (analyze_trend [4000, 4200, 3900, 4100, 4050]) ''direction''
       = Some (PStr ''stable'')"
proof -
  have "map_of (analyze_trend [4000, 4200, 3900, 4100, 4050]) ''direction''
        = Some (PStr ''stable'')"
    by (subst analyze_trend_direction_lookup) (simp_all add: flat_slope)
  then show ?thesis
    using extract_trend_direction_rule analyze_trend_direction_lookup by blast
qed

theorem trend_direction_rules_witness:
  "2 \<le> length (field_values rising_steps)
   \<and> map_of (extract_trend rising_steps) ''trend_direction'' = Some (PStr ''increasing'')
   \<and> trend_r_squared (field_values rising_steps) > 0.3
   \<and> 2 \<le> length (field_values noisy_flat_steps)
   \<and> \<not> trend_r_squared (field_values noisy_flat_steps) > 0.3
   \<and> map_of (extract_trend noisy_flat_steps) ''trend_direction'' = Some (PStr ''stable'')
   \<and> 2 \<le> length [4000, 5000, 6000 :: real]
   \<and> map_of (analyze_trend [4000, 5000, 6000]) ''direction'' = Some (PStr ''up'')"
proof -
  have len: "2 \<le> length (field_values rising_steps)"
    by (simp add: rising_values)
  have d: "map_of (extract_trend rising_steps) ''trend_direction'' = Some (PStr ''increasing'')"
    unfolding extract_trend_direction_lookup [OF len] rising_values rising_slope rising_r_squared
    by simp
  have r: "trend_r_squared (field_values rising_steps) > 0.3"
    using trend_direction_rules len d by blast
  have len': "2 \<le> length (field_values noisy_flat_steps)"
    by (simp add: flat_values)
  have r': "\<not> trend_r_squared (field_values noisy_flat_steps) > 0.3"
    using trend_r_squared_flat [OF flat_slope] by (simp add: flat_values)
  have st: "map_of (extract_trend noisy_flat_steps) ''trend_direction'' = Some (PStr ''stable'')"
    using trend_direction_rules len' r' by blast
  have len3: "2 \<le> length [4000, 5000, 6000 :: real]" by simp
  have "map_of (analyze_trend [4000, 5000, 6000]) ''direction'' =
           Some (PStr (if trend_slope [4000, 5000, 6000] > 0.1 then ''up''
                       else if trend_slope [4000, 5000, 6000] < - 0.1 then ''down''
                       else ''stable''))"
    using trend_direction_rules len3 by blast
  then have up: "map_of (analyze_trend [4000, 5000, 6000]) ''direction'' = Some (PStr ''up'')"
    by (simp add: rising_slope)
  from len d r len' r' st up show ?thesis by simp
qed

text \<open>
  Claim C9: for every series with fewer than two data points, both trend functions return
  an explicit insufficient-data value and no numeric trend: \<open>_extract_trend\<close> the
  dictionary with status \<open>insufficient_data\<close> and the count, \<open>_analyze_trend\<close> the
  dictionary with direction \<open>insufficient_data\<close> and strength 0.
\<close>
theorem trend_insufficient_data:
  "(\<forall>fs. length (field_values fs) < 2 \<longrightarrow>
      extract_trend fs = [(''status'', PStr ''insufficient_data''),
                          (''count'', PInt (int (length (field_values fs))))])
   \<and> (\<forall>bpm_values. length bpm_values < 2 \<longrightarrow>
        analyze_trend bpm_values = [(''direction'', PStr ''insufficient_data''),
                                    (''strength'', PInt 0)])"
  by (simp add: extract_trend_def analyze_trend_def Let_def)

theorem trend_insufficient_data_witness:
  "length (field_values [None, Some 5000, None]) < 2
   \<and> extract_trend [None, Some 5000, None]
       = [(''status'', PStr ''insufficient_data''), (''count'', PInt 1)]
   \<and> length ([72] :: real list) < 2
   \<and> analyze_trend [72] = [(''direction'', PStr ''insufficient_data''), (''strength'', PInt 0)]
   \<and> analyze_trend [] = [(''direction'', PStr ''insufficient_data''), (''strength'', PInt 0)]"
proof -
  have l: "length (field_values [None, Some 5000, None]) < 2"
    by (simp add: field_values_def)
  have "extract_trend [None, Some 5000, None]
        = [(''status'', PStr ''insufficient_data''),
           (''count'', PInt (int (length (field_values [None, Some 5000, None]))))]"
    using trend_insufficient_data l by blast
  then have e: "extract_trend [None, Some 5000, None]
        = [(''status'', PStr ''insufficient_data''), (''count'', PInt 1)]"
    by (simp add: field_values_def)
  have a: "analyze_trend [72] = [(''direction'', PStr ''insufficient_data''), (''strength'', PInt 0)]"
    using trend_insufficient_data by simp
  have b: "analyze_trend [] = [(''direction'', PStr ''insufficient_data''), (''strength'', PInt 0)]"
    using trend_insufficient_data by simp
  from l e a b show ?thesis by simp
qed


section \<open>Anomaly detection: auxiliary facts\<close>

lemma sum_list_map_zero:
  "\<forall>x \<in> set xs. f x = (0::real) \<Longrightarrow> sum_list (map f xs) = 0"
  by (induction xs) simp_all

lemma np_mean_const:
  assumes "xs \<noteq> []" and "\<forall>x \<in> set xs. x = c"
  shows "np_mean xs = c"
proof -
  from assms(2) have "xs = replicate (length xs) c"
    by (simp add: replicate_length_same)
  then have "sum_list xs = real (length xs) * c"
    by (metis sum_list_replicate)
  with assms(1) show ?thesis
    by (simp add: np_mean_def)
qed

lemma np_std_const:
  assumes "xs \<noteq> []" and "\<forall>x \<in> set xs. x = c"
  shows "np_std xs = 0"
proof -
  have m: "np_mean xs = c" using assms by (rule np_mean_const)
  have "\<forall>x \<in> set xs. (x - c)\<^sup>2 = 0"
    using assms(2) by simp
  then have "sum_list (map (\<lambda>x. (x - c)\<^sup>2) xs) = 0"
    by (rule sum_list_map_zero)
  then have "np_mean (map (\<lambda>x. (x - c)\<^sup>2) xs) = 0"
    by (simp add: np_mean_def)
  then show ?thesis
    unfolding np_std_def m by simp
qed

lemma np_std_nonneg: "0 \<le> np_std xs"
  by (auto simp: np_std_def np_mean_def intro!: divide_nonneg_nonneg sum_list_nonneg)

lemma point_anomalies_zero_std: "point_anomalies err m 0 rs = []"
  by (induction rs) (simp_all add: point_anomalies_def point_anomaly_def z_score_of_def)


text \<open>The HRV check hands back a list only when it has nothing to report.\<close>

lemma detect_hrv_issues_returns:
  "detect_hrv_issues rs = Inr hs \<Longrightarrow> hs = []"
  by (auto simp: detect_hrv_issues_def queryset_last_def Let_def split: if_splits)

lemma detect_hrv_issues_quiet:
  "length rs < 30 \<or> 20 \<le> rmssd_of (rr_intervals_of (map timestamp rs)) \<Longrightarrow>
   detect_hrv_issues rs = Inr []"
  by (auto simp: detect_hrv_issues_def Let_def)

lemma detect_hrv_issues_raises:
  "30 \<le> length rs \<Longrightarrow> rmssd_of (rr_intervals_of (map timestamp rs)) < 20 \<Longrightarrow>
   detect_hrv_issues rs = Inl NegativeIndexing"
  by (auto simp: detect_hrv_issues_def queryset_last_def Let_def rr_intervals_of_def)

lemma sustained_type:
  "a \<in> set (sustained_scan m s ws) \<Longrightarrow>
   map_of a ''type'' = Some (PStr ''sustained_high_heart_rate'')"
  by (induction ws) (auto simp: Let_def split: if_splits)

lemma sustained_no_reading_id:
  "a \<in> set (sustained_scan m s ws) \<Longrightarrow> map_of a ''reading_id'' = None"
  by (induction ws) (auto simp: Let_def split: if_splits)


lemma detect_patterns_returns:
  "detect_patterns rs m s = Inr ps \<Longrightarrow> set ps \<subseteq> set (sustained_scan m s (sliding_windows rs))"
  by (auto simp: detect_patterns_def Let_def split: if_splits sum.splits
      dest: detect_hrv_issues_returns)

lemma patterns_no_reading_id:
  "detect_patterns rs m s = Inr ps \<Longrightarrow> a \<in> set ps \<Longrightarrow> map_of a ''reading_id'' = None"
  using detect_patterns_returns sustained_no_reading_id by blast

lemma patterns_type:
  "detect_patterns rs m s = Inr ps \<Longrightarrow> a \<in> set ps \<Longrightarrow>
   map_of a ''type'' \<noteq> Some (PStr ''high_heart_rate'')
   \<and> map_of a ''type'' \<noteq> Some (PStr ''low_heart_rate'')"
  using detect_patterns_returns [of rs m s ps] sustained_type [of a m s "sliding_windows rs"]
  by auto


lemma detect_patterns_quiet:
  "length rs < 30 \<or> 20 \<le> rmssd_of (rr_intervals_of (map timestamp rs)) \<Longrightarrow>
   \<exists>ps. detect_patterns rs m s = Inr ps"
  by (simp add: detect_patterns_def Let_def detect_hrv_issues_quiet)

lemma point_anomaly_reading_id:
  "a \<in> set (point_anomaly err m s r) \<Longrightarrow> map_of a ''reading_id'' = Some (PStr (reading_id r))"
  by (auto simp: point_anomaly_def Let_def split: if_splits)


lemma filter_concat_all:
  "(\<And>x a. x \<in> set xs \<Longrightarrow> a \<in> set (f x) \<Longrightarrow> P a) \<Longrightarrow>
   filter P (concat (map f xs)) = concat (map f xs)"
  unfolding filter_id_conv by auto

text \<open>A run that returns: the point anomalies followed by the pattern anomalies.\<close>

lemma window_anomalies_returns:
  assumes "window_anomalies rounding rs = Inr as" and "10 \<le> length rs"
  shows "\<exists>ps. detect_patterns rs (np_mean (bpm_values_of rs)) (np_std (bpm_values_of rs)) = Inr ps
           \<and> as = point_anomalies (rounding (bpm_values_of rs)) (np_mean (bpm_values_of rs))
                     (np_std (bpm_values_of rs)) rs @ ps"
  using assms by (auto simp: window_anomalies_def Let_def split: sum.splits)

lemma window_anomalies_quiet:
  assumes "length rs < 30 \<or> 20 \<le> rmssd_of (rr_intervals_of (map timestamp rs))"
  shows "\<exists>as. window_anomalies rounding rs = Inr as"
proof -
  obtain ps where "detect_patterns rs (np_mean (bpm_values_of rs)) (np_std (bpm_values_of rs))
                   = Inr ps"
    using detect_patterns_quiet [OF assms] by blast
  then show ?thesis
    by (simp add: window_anomalies_def Let_def)
qed

lemma point_part_of_window:
  assumes "window_anomalies rounding rs = Inr as" and "10 \<le> length rs"
  shows "filter (\<lambda>a. map_of a ''reading_id'' \<noteq> None) as
         = point_anomalies (rounding (bpm_values_of rs)) (np_mean (bpm_values_of rs))
             (np_std (bpm_values_of rs)) rs"
proof -
  let ?m = "np_mean (bpm_values_of rs)" and ?s = "np_std (bpm_values_of rs)"
  let ?e = "rounding (bpm_values_of rs)"
  obtain ps where ps: "detect_patterns rs ?m ?s = Inr ps"
    and as: "as = point_anomalies ?e ?m ?s rs @ ps"
    using window_anomalies_returns [OF assms] by blast
  have 1: "filter (\<lambda>a. map_of a ''reading_id'' \<noteq> None) (point_anomalies ?e ?m ?s rs)
           = point_anomalies ?e ?m ?s rs"
    unfolding point_anomalies_def
    by (rule filter_concat_all) (auto dest: point_anomaly_reading_id)
  have 2: "filter (\<lambda>a. map_of a ''reading_id'' \<noteq> None) ps = []"
    using patterns_no_reading_id [OF ps] by (auto simp: filter_empty_conv)
  show ?thesis
    unfolding as filter_append 1 2 by simp
qed


text \<open>The flagged readings, in order, and the dictionary built for each.\<close>

lemma point_anomalies_ids:
  "map (\<lambda>a. map_of a ''reading_id'') (point_anomalies err m s rs)
   = map (\<lambda>r. Some (PStr (reading_id r))) (filter (\<lambda>r. \<bar>z_score_of err m s r\<bar> > 3) rs)"
  by (induction rs) (simp_all add: point_anomalies_def point_anomaly_def Let_def)

lemma point_anomalies_severity:
  "map (\<lambda>a. map_of a ''severity'') (point_anomalies err m s rs)
   = map (\<lambda>r. Some (PStr (if \<bar>z_score_of err m s r\<bar> > 4 then ''critical'' else ''high'')))
       (filter (\<lambda>r. \<bar>z_score_of err m s r\<bar> > 3) rs)"
  by (induction rs) (simp_all add: point_anomalies_def point_anomaly_def Let_def)

lemma z_score_of_computed:
  assumes "np_std (bpm_values_of rs) \<noteq> 0"
  shows "z_score_of (rounding (bpm_values_of rs)) (np_mean (bpm_values_of rs))
           (np_std (bpm_values_of rs)) = computed_z rounding rs"
proof -
  from assms np_std_nonneg [of "bpm_values_of rs"] have "np_std (bpm_values_of rs) > 0"
    by linarith
  then show ?thesis
    by (simp add: z_score_of_def computed_z_def exact_z_def fun_eq_iff)
qed

section \<open>Test windows\<close>

lemma concat_map_empty: "\<forall>x \<in> set xs. f x = [] \<Longrightarrow> concat (map f xs) = []"
  by (induction xs) simp_all

lemma in_window_all:
  assumes "\<forall>r \<in> set rs. user r = u \<and> t0 \<le> timestamp r \<and> timestamp r \<le> t1"
    and "sorted (map timestamp rs)"
  shows "readings_in_window rs u t0 t1 = rs"
proof -
  from assms(1) have "filter (\<lambda>r. user r = u \<and> t0 \<le> timestamp r \<and> timestamp r \<le> t1) rs = rs"
    by (simp add: filter_id_conv)
  with assms(2) show ?thesis
    by (simp add: readings_in_window_def sort_key_id_if_sorted)
qed

lemma sorted_minutes: "sorted (map (\<lambda>i. 60 * real i) [m..<n])"
  unfolding sorted_map by (rule sorted_wrt_mono_rel [OF _ sorted_upt [of m n]]) simp



subsection \<open>The window with a spike\<close>


lemma spike_length: "length spike_window = 26"
  by (simp add: spike_window_def)

lemma spike_bpm: "bpm_values_of spike_window = replicate 25 60 @ [86]"
  by (simp add: spike_window_def bpm_values_of_def rest_reading_def comp_def map_replicate_const)

lemma spike_mean: "np_mean (bpm_values_of spike_window) = 61"
  unfolding spike_bpm by (simp add: np_mean_def sum_list_replicate)

lemma spike_std: "np_std (bpm_values_of spike_window) = 5"
proof -
  have "np_mean (map (\<lambda>x. (x - 61)\<^sup>2) (replicate 25 60 @ [86::real])) = 25"
    by (simp add: np_mean_def sum_list_replicate)
  moreover have "sqrt 25 = 5"
    by (rule real_sqrt_unique) simp_all
  ultimately show ?thesis
    unfolding np_std_def spike_mean [unfolded spike_bpm] spike_bpm by simp
qed

lemma spike_points:
  "point_anomalies (exact_arithmetic vs) 61 5 spike_window =
     [[(''type'', PStr ''high_heart_rate''), (''value'', PInt 86),
       (''timestamp'', PTime 1500), (''z_score'', PFloat 5),
       (''severity'', PStr ''critical''), (''context'', PStr ''rest''),
       (''reading_id'', PStr (uuid_of 25))]]"
proof -
  have "concat (map (point_anomaly (exact_arithmetic vs) 61 5) (map (rest_reading 60) [0..<25])) = []"
    by (rule concat_map_empty)
       (auto simp: point_anomaly_def z_score_of_def rest_reading_def exact_arithmetic_def)
  moreover have "point_anomaly (exact_arithmetic vs) 61 5 (rest_reading 86 25) =
     [[(''type'', PStr ''high_heart_rate''), (''value'', PInt 86),
       (''timestamp'', PTime 1500), (''z_score'', PFloat 5),
       (''severity'', PStr ''critical''), (''context'', PStr ''rest''),
       (''reading_id'', PStr (uuid_of 25))]]"
    by (simp add: point_anomaly_def z_score_of_def rest_reading_def exact_arithmetic_def)
  ultimately show ?thesis
    by (simp add: point_anomalies_def spike_window_def)
qed

lemma spike_returns: "\<exists>as. window_anomalies exact_arithmetic spike_window = Inr as"
  by (rule window_anomalies_quiet) (simp add: spike_length)

lemma spike_point_part:
  "filter (\<lambda>a. map_of a ''reading_id'' \<noteq> None)
     (reported (window_anomalies exact_arithmetic spike_window))
   = [[(''type'', PStr ''high_heart_rate''), (''value'', PInt 86),
       (''timestamp'', PTime 1500), (''z_score'', PFloat 5),
       (''severity'', PStr ''critical''), (''context'', PStr ''rest''),
       (''reading_id'', PStr (uuid_of 25))]]"
proof -
  obtain as where as: "window_anomalies exact_arithmetic spike_window = Inr as"
    using spike_returns by blast
  have len: "10 \<le> length spike_window" by (simp add: spike_length)
  have "filter (\<lambda>a. map_of a ''reading_id'' \<noteq> None) as
        = point_anomalies (exact_arithmetic (bpm_values_of spike_window)) 61 5 spike_window"
    using point_part_of_window [OF as len] by (simp only: spike_mean spike_std)
  then show ?thesis
    by (simp only: as reported.simps spike_points)
qed





subsection \<open>The window with a mild outlier\<close>


lemma mild_length: "length mild_window = 14"
  by (simp add: mild_window_def)

lemma bpm_values_rest:
  "bpm_values_of (map (rest_reading b) ns) = replicate (length ns) (real_of_int b)"
  by (simp add: bpm_values_of_def rest_reading_def comp_def map_replicate_const)

lemma mild_bpm: "bpm_values_of mild_window = replicate 7 60 @ replicate 6 62 @ [76]"
proof -
  have "bpm_values_of mild_window
        = bpm_values_of (map (rest_reading 60) [0..<7])
          @ bpm_values_of (map (rest_reading 62) [7..<13])
          @ bpm_values_of [rest_reading 76 13]"
    by (simp only: mild_window_def bpm_values_of_def map_append)
  then show ?thesis
    by (simp only: bpm_values_rest length_upt) (simp add: bpm_values_of_def rest_reading_def)
qed

lemma mild_mean: "np_mean (bpm_values_of mild_window) = 62"
  unfolding mild_bpm by (simp add: np_mean_def sum_list_replicate)

lemma mild_std: "np_std (bpm_values_of mild_window) = 4"
proof -
  have "np_mean (map (\<lambda>x. (x - 62)\<^sup>2) (replicate 7 60 @ replicate 6 62 @ [76::real])) = 16"
    by (simp add: np_mean_def sum_list_replicate)
  moreover have "sqrt 16 = 4"
    by (rule real_sqrt_unique) simp_all
  ultimately show ?thesis
    unfolding np_std_def mild_mean [unfolded mild_bpm] mild_bpm by simp
qed

lemma mild_points: "point_anomalies (exact_arithmetic vs) 62 4 mild_window = [mild_anomaly]"
proof -
  have 1: "concat (map (point_anomaly (exact_arithmetic vs) 62 4) (map (rest_reading 60) [0..<7])) = []"
    by (rule concat_map_empty)
       (auto simp: point_anomaly_def z_score_of_def rest_reading_def exact_arithmetic_def)
  have 2: "concat (map (point_anomaly (exact_arithmetic vs) 62 4) (map (rest_reading 62) [7..<13])) = []"
    by (rule concat_map_empty)
       (auto simp: point_anomaly_def z_score_of_def rest_reading_def exact_arithmetic_def)
  have r: "py_round (7 / 2) 2 = 7 / 2"
    by (rule py_round_exact [where k = 350]) simp
  have 3: "point_anomaly (exact_arithmetic vs) 62 4 (rest_reading 76 13) = [mild_anomaly]"
    by (simp add: point_anomaly_def z_score_of_def rest_reading_def exact_arithmetic_def
        mild_anomaly_def r)
  show ?thesis
    unfolding point_anomalies_def mild_window_def map_append concat_append 1 2
    by (simp add: 3)
qed

lemma mild_run: "window_anomalies exact_arithmetic mild_window = Inr [mild_anomaly]"
  by (simp add: window_anomalies_def Let_def mild_length detect_patterns_def
      mild_mean mild_std mild_points)

lemma mild_flagged:
  "filter (\<lambda>r. \<bar>computed_z exact_arithmetic mild_window r\<bar> > 3) mild_window
   = [rest_reading 76 13]"
proof -
  have z: "computed_z exact_arithmetic mild_window = (\<lambda>r. (real_of_int (bpm r) - 62) / 4)"
    by (simp add: computed_z_def exact_z_def exact_arithmetic_def mild_mean mild_std fun_eq_iff)
  have "filter (\<lambda>r. \<bar>(real_of_int (bpm r) - 62) / 4\<bar> > 3) (map (rest_reading 60) [0..<7]) = []"
    "filter (\<lambda>r. \<bar>(real_of_int (bpm r) - 62) / 4\<bar> > 3) (map (rest_reading 62) [7..<13]) = []"
    by (auto simp: filter_empty_conv rest_reading_def)
  then show ?thesis
    unfolding z by (simp add: mild_window_def rest_reading_def)
qed





section \<open>Point anomalies and their severity\<close>

text \<open>
  Claim C2, as stated, fails on the severities: a flagged reading is \<open>critical\<close> when the
  absolute z-score exceeds 4 and \<open>high\<close> otherwise; \<open>medium\<close> is never the severity of a
  point anomaly. In the window of twenty-five readings of 60 bpm and one of 86 the run
  returns, the reading of 86 bpm has z-score 5, and its severity is \<open>critical\<close>.
\<close>
theorem point_anomaly_severity_is_critical_or_high:
  "10 \<le> length spike_window
   \<and> np_std (bpm_values_of spike_window) \<noteq> 0
   \<and> \<not> isl (window_anomalies exact_arithmetic spike_window)
   \<and> \<bar>exact_z spike_window (rest_reading 86 25)\<bar> > 4
   \<and> map (\<lambda>a. map_of a ''severity'')
        (filter (\<lambda>a. map_of a ''reading_id'' \<noteq> None)
           (reported (window_anomalies exact_arithmetic spike_window)))
      = [Some (PStr ''critical'')]
   \<and> map (\<lambda>a. map_of a ''severity'')
        (filter (\<lambda>a. map_of a ''reading_id'' \<noteq> None)
           (reported (window_anomalies exact_arithmetic spike_window)))
      \<noteq> [Some (PStr ''high'')]"
proof -
  have len: "10 \<le> length spike_window" by (simp add: spike_length)
  have ret: "\<not> isl (window_anomalies exact_arithmetic spike_window)"
    using spike_returns by auto
  have sev: "map (\<lambda>a. map_of a ''severity'')
        (filter (\<lambda>a. map_of a ''reading_id'' \<noteq> None)
           (reported (window_anomalies exact_arithmetic spike_window)))
      = [Some (PStr ''critical'')]"
    by (simp only: spike_point_part) simp
  have z: "\<bar>exact_z spike_window (rest_reading 86 25)\<bar> > 4"
    by (simp add: exact_z_def spike_mean spike_std rest_reading_def)
  from len ret sev z show ?thesis
    by (simp add: spike_std)
qed

text \<open>
  Claim C2, amended: for every window of at least 10 readings with non-zero deviation,
  whenever the run of \<open>detect_anomalies\<close> returns, as it does on every window of fewer
  than 30 readings, its point anomalies are, in order, exactly the readings whose computed
  z-score exceeds 3 in absolute value, and each has severity \<open>critical\<close> when that
  absolute value exceeds 4 and \<open>high\<close> otherwise. The computed z-score is the exact one
  plus the rounding error of the evaluation in doubles:
  when that error is at most \<open>\<epsilon>\<close>, a reading whose exact absolute z-score exceeds
  \<open>3 + \<epsilon>\<close> is flagged, a flagged reading has an exact absolute z-score above
  \<open>3 - \<epsilon>\<close>, and likewise at 4 for the severity.
\<close>
theorem point_anomalies_flag_z_above_3:
  assumes len: "10 \<le> length rs" and std: "np_std (bpm_values_of rs) \<noteq> 0"
  shows "(length rs < 30 \<longrightarrow> (\<exists>anomalies. window_anomalies rounding rs = Inr anomalies))
       \<and> (\<forall>anomalies. window_anomalies rounding rs = Inr anomalies \<longrightarrow>
            map (\<lambda>a. map_of a ''reading_id'')
              (filter (\<lambda>a. map_of a ''reading_id'' \<noteq> None) anomalies)
            = map (\<lambda>r. Some (PStr (reading_id r)))
                (filter (\<lambda>r. \<bar>computed_z rounding rs r\<bar> > 3) rs)
            \<and> map (\<lambda>a. map_of a ''severity'')
                (filter (\<lambda>a. map_of a ''reading_id'' \<noteq> None) anomalies)
              = map (\<lambda>r. Some (PStr (if \<bar>computed_z rounding rs r\<bar> > 4
                                       then ''critical'' else ''high'')))
                  (filter (\<lambda>r. \<bar>computed_z rounding rs r\<bar> > 3) rs))
       \<and> (\<forall>\<epsilon>. (\<forall>r \<in> set rs. \<bar>rounding (bpm_values_of rs) (bpm r)\<bar> \<le> \<epsilon>) \<longrightarrow>
             (\<forall>r \<in> set rs.
                (\<bar>exact_z rs r\<bar> > 3 + \<epsilon> \<longrightarrow> \<bar>computed_z rounding rs r\<bar> > 3)
                \<and> (\<bar>computed_z rounding rs r\<bar> > 3 \<longrightarrow> \<bar>exact_z rs r\<bar> > 3 - \<epsilon>)
                \<and> (\<bar>exact_z rs r\<bar> > 4 + \<epsilon> \<longrightarrow> \<bar>computed_z rounding rs r\<bar> > 4)
                \<and> (\<bar>computed_z rounding rs r\<bar> > 4 \<longrightarrow> \<bar>exact_z rs r\<bar> > 4 - \<epsilon>)))"
proof -
  note z = z_score_of_computed [OF std, of rounding]
  have returns: "length rs < 30 \<longrightarrow> (\<exists>anomalies. window_anomalies rounding rs = Inr anomalies)"
    using window_anomalies_quiet [of rs rounding] by blast
  have ids: "map (\<lambda>a. map_of a ''reading_id'')
           (filter (\<lambda>a. map_of a ''reading_id'' \<noteq> None) as)
         = map (\<lambda>r. Some (PStr (reading_id r)))
             (filter (\<lambda>r. \<bar>computed_z rounding rs r\<bar> > 3) rs)"
    if as: "window_anomalies rounding rs = Inr as" for as
    using point_anomalies_ids [of "rounding (bpm_values_of rs)" "np_mean (bpm_values_of rs)"
        "np_std (bpm_values_of rs)" rs]
    unfolding point_part_of_window [OF as len] z by simp
  have sev: "map (\<lambda>a. map_of a ''severity'')
           (filter (\<lambda>a. map_of a ''reading_id'' \<noteq> None) as)
         = map (\<lambda>r. Some (PStr (if \<bar>computed_z rounding rs r\<bar> > 4
                                  then ''critical'' else ''high'')))
             (filter (\<lambda>r. \<bar>computed_z rounding rs r\<bar> > 3) rs)"
    if as: "window_anomalies rounding rs = Inr as" for as
    using point_anomalies_severity [of "rounding (bpm_values_of rs)" "np_mean (bpm_values_of rs)"
        "np_std (bpm_values_of rs)" rs]
    unfolding point_part_of_window [OF as len] z by simp
  have eps: "\<forall>\<epsilon>. (\<forall>r \<in> set rs. \<bar>rounding (bpm_values_of rs) (bpm r)\<bar> \<le> \<epsilon>) \<longrightarrow>
             (\<forall>r \<in> set rs.
                (\<bar>exact_z rs r\<bar> > 3 + \<epsilon> \<longrightarrow> \<bar>computed_z rounding rs r\<bar> > 3)
                \<and> (\<bar>computed_z rounding rs r\<bar> > 3 \<longrightarrow> \<bar>exact_z rs r\<bar> > 3 - \<epsilon>)
                \<and> (\<bar>exact_z rs r\<bar> > 4 + \<epsilon> \<longrightarrow> \<bar>computed_z rounding rs r\<bar> > 4)
                \<and> (\<bar>computed_z rounding rs r\<bar> > 4 \<longrightarrow> \<bar>exact_z rs r\<bar> > 4 - \<epsilon>))"
  proof (intro allI impI ballI)
    fix \<epsilon> r
    assume "\<forall>r \<in> set rs. \<bar>rounding (bpm_values_of rs) (bpm r)\<bar> \<le> \<epsilon>" and "r \<in> set rs"
    then have "\<bar>rounding (bpm_values_of rs) (bpm r)\<bar> \<le> \<epsilon>" by blast
    then show "(\<bar>exact_z rs r\<bar> > 3 + \<epsilon> \<longrightarrow> \<bar>computed_z rounding rs r\<bar> > 3)
                \<and> (\<bar>computed_z rounding rs r\<bar> > 3 \<longrightarrow> \<bar>exact_z rs r\<bar> > 3 - \<epsilon>)
                \<and> (\<bar>exact_z rs r\<bar> > 4 + \<epsilon> \<longrightarrow> \<bar>computed_z rounding rs r\<bar> > 4)
                \<and> (\<bar>computed_z rounding rs r\<bar> > 4 \<longrightarrow> \<bar>exact_z rs r\<bar> > 4 - \<epsilon>)"
      unfolding computed_z_def by (auto simp: abs_if split: if_splits)
  qed
  from returns ids sev eps show ?thesis by blast
qed

theorem point_anomalies_flag_z_above_3_witness:
  "10 \<le> length mild_window
   \<and> np_std (bpm_values_of mild_window) \<noteq> 0
   \<and> length mild_window < 30
   \<and> window_anomalies exact_arithmetic mild_window
       = Inr [[(''type'', PStr ''high_heart_rate''), (''value'', PInt 76),
               (''timestamp'', PTime 780), (''z_score'', PFloat 3.5),
               (''severity'', PStr ''high''), (''context'', PStr ''rest''),
               (''reading_id'', PStr (uuid_of 13))]]
   \<and> computed_z exact_arithmetic mild_window (rest_reading 76 13) = 3.5
   \<and> map (\<lambda>a. map_of a ''reading_id'')
        (filter (\<lambda>a. map_of a ''reading_id'' \<noteq> None)
           (reported (window_anomalies exact_arithmetic mild_window)))
      = [Some (PStr (uuid_of 13))]
   \<and> map (\<lambda>a. map_of a ''severity'')
        (filter (\<lambda>a. map_of a ''reading_id'' \<noteq> None)
           (reported (window_anomalies exact_arithmetic mild_window)))
      = [Some (PStr ''high'')]"
proof -
  have len: "10 \<le> length mild_window" by (simp add: mild_length)
  have std: "np_std (bpm_values_of mild_window) \<noteq> 0" by (simp add: mild_std)
  have short: "length mild_window < 30" by (simp add: mild_length)
  have z: "computed_z exact_arithmetic mild_window (rest_reading 76 13) = 3.5"
    by (simp add: computed_z_def exact_z_def exact_arithmetic_def mild_mean mild_std
        rest_reading_def)
  note flags = point_anomalies_flag_z_above_3 [OF len std, of exact_arithmetic]
  obtain as where as: "window_anomalies exact_arithmetic mild_window = Inr as"
    using flags short by blast
  have ids: "map (\<lambda>a. map_of a ''reading_id'')
                (filter (\<lambda>a. map_of a ''reading_id'' \<noteq> None) as)
              = map (\<lambda>r. Some (PStr (reading_id r)))
                  (filter (\<lambda>r. \<bar>computed_z exact_arithmetic mild_window r\<bar> > 3) mild_window)"
    and sev: "map (\<lambda>a. map_of a ''severity'')
                (filter (\<lambda>a. map_of a ''reading_id'' \<noteq> None) as)
              = map (\<lambda>r. Some (PStr (if \<bar>computed_z exact_arithmetic mild_window r\<bar> > 4
                                       then ''critical'' else ''high'')))
                  (filter (\<lambda>r. \<bar>computed_z exact_arithmetic mild_window r\<bar> > 3) mild_window)"
    using flags as by blast+
  have r: "reported (window_anomalies exact_arithmetic mild_window) = as"
    by (simp add: as)
  have ids': "map (\<lambda>a. map_of a ''reading_id'')
                (filter (\<lambda>a. map_of a ''reading_id'' \<noteq> None) as) = [Some (PStr (uuid_of 13))]"
    unfolding ids mild_flagged by (simp add: rest_reading_def)
  have sev': "map (\<lambda>a. map_of a ''severity'')
                (filter (\<lambda>a. map_of a ''reading_id'' \<noteq> None) as) = [Some (PStr ''high'')]"
    unfolding sev mild_flagged by (simp add: z)
  from len std z ids' sev' show ?thesis
    unfolding r using mild_run by (simp add: mild_length mild_anomaly_def)
qed

section \<open>Constant windows\<close>

lemma bpm_values_const:
  "\<forall>r \<in> set rs. bpm r = c \<Longrightarrow> \<forall>x \<in> set (bpm_values_of rs). x = real_of_int c"
  by (auto simp: bpm_values_of_def)

lemma constant_window_length: "length constant_window = 30"
  by (simp add: constant_window_def)

lemma short_constant_window_length: "length short_constant_window = 12"
  by (simp add: short_constant_window_def)

lemma constant_window_bpm: "map bpm constant_window = replicate 30 70"
  by (simp add: constant_window_def rest_reading_def comp_def map_replicate_const)

lemma short_constant_window_bpm: "map bpm short_constant_window = replicate 12 70"
  by (simp add: short_constant_window_def rest_reading_def comp_def map_replicate_const)

lemma constant_window_timestamps:
  "map timestamp constant_window = map (\<lambda>i. 60 * real i) [0..<30]"
  by (simp add: constant_window_def rest_reading_def comp_def)

lemma constant_window_in_window: "readings_in_window constant_window 7 0 1740 = constant_window"
proof (rule in_window_all)
  show "\<forall>r \<in> set constant_window. user r = 7 \<and> 0 \<le> timestamp r \<and> timestamp r \<le> 1740"
    by (auto simp: constant_window_def rest_reading_def)
  show "sorted (map timestamp constant_window)"
    unfolding constant_window_timestamps by (rule sorted_minutes)
qed

text \<open>
  Claim C4: for every heart-rate window of at least 10 readings whose bpm values are all
  equal, the standard deviation is 0, the guarded z-score of every reading is 0 whatever
  the rounding of the evaluation (nothing is divided by zero), and the z-score pass yields
  no point anomaly: what the detector reports holds no dictionary with a \<open>reading_id\<close>
  and none of type \<open>high_heart_rate\<close> or \<open>low_heart_rate\<close>. The run returns whenever
  the window has fewer than 30 readings.
\<close>
theorem constant_window_no_point_anomalies:
  assumes len: "10 \<le> length rs" and const: "\<forall>r \<in> set rs. bpm r = c"
  shows "np_std (bpm_values_of rs) = 0
       \<and> (\<forall>r \<in> set rs. z_score_of (rounding (bpm_values_of rs)) (np_mean (bpm_values_of rs))
                            (np_std (bpm_values_of rs)) r = 0)
       \<and> point_anomalies (rounding (bpm_values_of rs)) (np_mean (bpm_values_of rs))
           (np_std (bpm_values_of rs)) rs = []
       \<and> filter (\<lambda>a. map_of a ''reading_id'' \<noteq> None) (reported (window_anomalies rounding rs)) = []
       \<and> (\<forall>a \<in> set (reported (window_anomalies rounding rs)).
             map_of a ''type'' \<noteq> Some (PStr ''high_heart_rate'')
             \<and> map_of a ''type'' \<noteq> Some (PStr ''low_heart_rate''))
       \<and> (length rs < 30
            \<longrightarrow> (\<exists>anomalies. window_anomalies rounding rs = Inr anomalies
                   \<and> filter (\<lambda>a. map_of a ''reading_id'' \<noteq> None) anomalies = []))"
proof -
  let ?m = "np_mean (bpm_values_of rs)"
  let ?e = "rounding (bpm_values_of rs)"
  from len have ne: "bpm_values_of rs \<noteq> []"
    by (auto simp: bpm_values_of_def)
  have std: "np_std (bpm_values_of rs) = 0"
    using ne bpm_values_const [OF const] by (rule np_std_const)
  have pts: "point_anomalies ?e ?m 0 rs = []"
    by (rule point_anomalies_zero_std)
  have ret: "filter (\<lambda>a. map_of a ''reading_id'' \<noteq> None) as = []
             \<and> (\<forall>a \<in> set as. map_of a ''type'' \<noteq> Some (PStr ''high_heart_rate'')
                              \<and> map_of a ''type'' \<noteq> Some (PStr ''low_heart_rate''))"
    if as: "window_anomalies rounding rs = Inr as" for as
  proof -
    obtain ps where ps: "detect_patterns rs ?m (np_std (bpm_values_of rs)) = Inr ps"
      and eq: "as = point_anomalies ?e ?m (np_std (bpm_values_of rs)) rs @ ps"
      using window_anomalies_returns [OF as len] by blast
    from eq have "as = ps" by (simp only: std pts append_Nil)
    moreover have "filter (\<lambda>a. map_of a ''reading_id'' \<noteq> None) as = []"
      using point_part_of_window [OF as len] by (simp only: std pts)
    ultimately show ?thesis
      using patterns_type [OF ps] by blast
  qed
  have rep: "filter (\<lambda>a. map_of a ''reading_id'' \<noteq> None) (reported (window_anomalies rounding rs)) = []
       \<and> (\<forall>a \<in> set (reported (window_anomalies rounding rs)).
             map_of a ''type'' \<noteq> Some (PStr ''high_heart_rate'')
             \<and> map_of a ''type'' \<noteq> Some (PStr ''low_heart_rate''))"
  proof (cases "window_anomalies rounding rs")
    case (Inl e)
    then show ?thesis by simp
  next
    case (Inr as)
    with ret [OF Inr] show ?thesis by simp
  qed
  have quiet: "length rs < 30
            \<longrightarrow> (\<exists>anomalies. window_anomalies rounding rs = Inr anomalies
                   \<and> filter (\<lambda>a. map_of a ''reading_id'' \<noteq> None) anomalies = [])"
  proof
    assume "length rs < 30"
    then obtain as where as: "window_anomalies rounding rs = Inr as"
      using window_anomalies_quiet by blast
    with ret [OF as] show "\<exists>anomalies. window_anomalies rounding rs = Inr anomalies
                   \<and> filter (\<lambda>a. map_of a ''reading_id'' \<noteq> None) anomalies = []"
      by blast
  qed
  from rep quiet show ?thesis
    by (simp add: std pts z_score_of_def)
qed

theorem constant_window_no_point_anomalies_witness:
  "10 \<le> length constant_window
   \<and> map bpm constant_window = replicate 30 70
   \<and> np_std (bpm_values_of constant_window) = 0
   \<and> filter (\<lambda>a. map_of a ''reading_id'' \<noteq> None)
        (reported (window_anomalies exact_arithmetic constant_window)) = []
   \<and> 10 \<le> length short_constant_window
   \<and> length short_constant_window < 30
   \<and> map bpm short_constant_window = replicate 12 70
   \<and> np_std (bpm_values_of short_constant_window) = 0
   \<and> point_anomalies (exact_arithmetic (bpm_values_of short_constant_window))
        (np_mean (bpm_values_of short_constant_window))
        (np_std (bpm_values_of short_constant_window)) short_constant_window = []
   \<and> window_anomalies exact_arithmetic short_constant_window = Inr []"
proof -
  have len: "10 \<le> length constant_window"
    by (simp add: constant_window_length)
  have const: "\<forall>r \<in> set constant_window. bpm r = 70"
    by (auto simp: constant_window_def rest_reading_def)
  have slen: "10 \<le> length short_constant_window"
    by (simp add: short_constant_window_length)
  have sconst: "\<forall>r \<in> set short_constant_window. bpm r = 70"
    by (auto simp: short_constant_window_def rest_reading_def)
  note long = constant_window_no_point_anomalies [OF len const, of exact_arithmetic]
  note short = constant_window_no_point_anomalies [OF slen sconst, of exact_arithmetic]
  have pts: "point_anomalies (exact_arithmetic (bpm_values_of short_constant_window))
        (np_mean (bpm_values_of short_constant_window))
        (np_std (bpm_values_of short_constant_window)) short_constant_window = []"
    using short by blast
  have run: "window_anomalies exact_arithmetic short_constant_window = Inr []"
    unfolding window_anomalies_def Let_def detect_patterns_def pts
    by (simp add: short_constant_window_length)
  have slt: "length short_constant_window < 30"
    by (simp add: short_constant_window_length)
  have l1: "np_std (bpm_values_of constant_window) = 0"
    using long by blast
  have l2: "filter (\<lambda>a. map_of a ''reading_id'' \<noteq> None)
              (reported (window_anomalies exact_arithmetic constant_window)) = []"
    using long by blast
  have s1: "np_std (bpm_values_of short_constant_window) = 0"
    using short by blast
  show ?thesis
    by (intro conjI len constant_window_bpm l1 l2 slen slt short_constant_window_bpm s1 pts run)
qed

section \<open>Heart-rate variability from timestamps\<close>

lemma rr_intervals_regular:
  assumes "\<forall>i. Suc i < length ts \<longrightarrow> ts ! Suc i - ts ! i = d"
  shows "rr_intervals_of ts = replicate (length ts - 1) d"
proof -
  have "map (\<lambda>i. ts ! i - ts ! (i - 1)) [1..<length ts] = map (\<lambda>i. d) [1..<length ts]"
  proof (rule map_cong [OF refl])
    fix i assume "i \<in> set [1..<length ts]"
    then have "Suc (i - 1) = i" and "Suc (i - 1) < length ts" by auto
    with assms show "ts ! i - ts ! (i - 1) = d" by metis
  qed
  then show ?thesis
    by (simp add: rr_intervals_of_def map_replicate_const)
qed

lemma np_diff_replicate: "np_diff (replicate n d) = replicate (n - 1) 0"
proof -
  have "map (\<lambda>i. replicate n d ! (i + 1) - replicate n d ! i) [0..<n - 1]
        = map (\<lambda>i. 0) [0..<n - 1]"
    by (rule map_cong [OF refl]) auto
  then show ?thesis
    by (simp add: np_diff_def map_replicate_const)
qed

lemma rmssd_regular: "rmssd_of (replicate n d) = 0"
  by (simp add: rmssd_of_def Let_def np_diff_replicate np_mean_def sum_list_replicate)

text \<open>The HRV check reads nothing of the readings but their timestamps.\<close>

lemma detect_hrv_issues_timestamps:
  assumes "map timestamp rs = map timestamp rs'"
  shows "detect_hrv_issues rs = detect_hrv_issues rs'"
proof -
  from assms have "length rs = length rs'"
    using length_map by metis
  with assms show ?thesis
    by (simp add: detect_hrv_issues_def queryset_last_def Let_def)
qed

text \<open>
  On thirty or more regularly spaced readings the RMSSD is 0, the check reaches
  \<open>readings[-1]\<close>, and the error leaves the detector through both of its callers.
\<close>

lemma regular_window_raises:
  assumes len: "30 \<le> length rs"
    and reg: "\<forall>i. Suc i < length rs \<longrightarrow> timestamp (rs ! Suc i) - timestamp (rs ! i) = d"
  shows "rmssd_of (rr_intervals_of (map timestamp rs)) = 0"
    and "detect_hrv_issues rs = Inl NegativeIndexing"
    and "window_anomalies rounding rs = Inl NegativeIndexing"
proof -
  have "\<forall>i. Suc i < length (map timestamp rs)
            \<longrightarrow> map timestamp rs ! Suc i - map timestamp rs ! i = d"
    using reg by simp
  then have "rr_intervals_of (map timestamp rs) = replicate (length (map timestamp rs) - 1) d"
    by (rule rr_intervals_regular)
  then show r: "rmssd_of (rr_intervals_of (map timestamp rs)) = 0"
    by (simp add: rmssd_regular)
  then show h: "detect_hrv_issues rs = Inl NegativeIndexing"
    using detect_hrv_issues_raises [OF len] by simp
  from len h show "window_anomalies rounding rs = Inl NegativeIndexing"
    by (simp add: window_anomalies_def detect_patterns_def Let_def)
qed

lemma constant_window_regular:
  "\<forall>i. Suc i < length constant_window \<longrightarrow>
     timestamp (constant_window ! Suc i) - timestamp (constant_window ! i) = 60"
  by (simp add: constant_window_def rest_reading_def)

text \<open>
  Claim C10 describes what \<open>_detect_hrv_issues\<close> is written to do, and the code fails it:
  RMSSD and SDNN are computed from the timestamps alone, and on thirty readings of 70 bpm
  one minute apart the RMSSD is 0, but building the \<open>very_low_hrv\<close> dictionary evaluates
  \<open>readings[-1]\<close> on the \<open>QuerySet\<close> that \<open>detect_anomalies\<close> passed down. The error
  propagates: no anomaly is emitted and no row is marked.
\<close>
theorem hrv_anomaly_lost_to_negative_index:
  "30 \<le> length constant_window
   \<and> map timestamp constant_window = map (\<lambda>i. 60 * real i) [0..<30]
   \<and> map bpm constant_window = replicate 30 70
   \<and> rmssd_of (rr_intervals_of (map timestamp constant_window)) = 0
   \<and> detect_hrv_issues constant_window = Inl NegativeIndexing
   \<and> detect_hrv_issues (map (\<lambda>r. r\<lparr>bpm := 180\<rparr>) constant_window) = Inl NegativeIndexing
   \<and> window_anomalies exact_arithmetic constant_window = Inl NegativeIndexing
   \<and> reported (window_anomalies exact_arithmetic constant_window) = []
   \<and> detect_anomalies exact_arithmetic constant_window 7 0 1740 = Inl NegativeIndexing"
proof -
  have len: "30 \<le> length constant_window"
    by (simp add: constant_window_length)
  note raises = regular_window_raises [OF len constant_window_regular]
  have "map timestamp (map (\<lambda>r. r\<lparr>bpm := 180\<rparr>) constant_window) = map timestamp constant_window"
    by (simp add: comp_def)
  then have other: "detect_hrv_issues (map (\<lambda>r. r\<lparr>bpm := 180\<rparr>) constant_window)
                    = detect_hrv_issues constant_window"
    by (rule detect_hrv_issues_timestamps)
  have run: "detect_anomalies exact_arithmetic constant_window 7 0 1740 = Inl NegativeIndexing"
    by (simp add: detect_anomalies_def Let_def constant_window_in_window
        constant_window_length raises(3))
  have changed: "detect_hrv_issues (map (\<lambda>r. r\<lparr>bpm := 180\<rparr>) constant_window)
                 = Inl NegativeIndexing"
    unfolding other by (rule raises(2))
  have rep: "reported (window_anomalies exact_arithmetic constant_window) = []"
    by (simp add: raises(3))
  show ?thesis
    by (intro conjI len constant_window_timestamps constant_window_bpm raises(1) raises(2)
        changed raises(3) rep run)
qed

section \<open>Marking rows\<close>




lemma row_mark_id [simp]: "reading_id (row_mark a r) = reading_id r"
  by (simp add: row_mark_def split: option.splits prod.splits)


lemma apply_mark_id [simp]: "reading_id (apply_mark acc r) = reading_id r"
  by (cases acc) simp_all

lemma row_mark_apply:
  "row_mark a (apply_mark acc r) = apply_mark (mark_step (reading_id r) a acc) r"
  by (cases acc) (auto simp: row_mark_def mark_step_def split: option.splits)

lemma fold_row_mark_apply:
  "fold row_mark as (apply_mark acc r) = apply_mark (fold (mark_step (reading_id r)) as acc) r"
  by (induction as arbitrary: acc) (simp_all add: row_mark_apply)

lemma fold_row_mark:
  "fold row_mark as r = apply_mark (fold (mark_step (reading_id r)) as None) r"
  using fold_row_mark_apply [of as None r] by simp



lemma fold_row_mark_id [simp]: "reading_id (fold row_mark as r) = reading_id r"
  by (simp add: fold_row_mark)

lemma clear_apply_mark [simp]: "clear_marks (apply_mark acc r) = clear_marks r"
  by (cases acc) (simp_all add: clear_marks_def)

lemma clear_fold_row_mark [simp]: "clear_marks (fold row_mark as r) = clear_marks r"
  by (simp add: fold_row_mark)

section \<open>The detector does not read the marks\<close>

lemma clear_marks_fields [simp]:
  "reading_id (clear_marks r) = reading_id r" "user (clear_marks r) = user r"
  "bpm (clear_marks r) = bpm r" "timestamp (clear_marks r) = timestamp r"
  "hr_context (clear_marks r) = hr_context r"
  by (simp_all add: clear_marks_def)














section \<open>Distinct reading ids\<close>





section \<open>Idempotence\<close>










end
